theory Spec2Isabelle
  imports Complex_Main "HOL-Library.Sublist"
begin

section \<open>Data model\<close>

text \<open>
  The tables of \<^verbatim>\<open>supabase/migrations/20250624164004_bronze_villa.sql\<close>, one record
  per table. A column that may be NULL is an \<open>option\<close>; a \<^verbatim>\<open>NOT NULL\<close> column is not.
  Identifiers (\<^verbatim>\<open>uuid\<close>) and text columns are strings, timestamps are natural numbers.
\<close>

type_synonym uuid = string

text \<open>
  A JavaScript number as the client sees a \<^verbatim>\<open>decimal\<close> column and the result of
  \<^verbatim>\<open>parseFloat\<close>: a finite value, an infinity, or NaN. Only comparisons and
  truthiness are used by the code modelled here.
\<close>

datatype jsnum = NaN | NegInf | Num rat | PosInf

fun js_le :: "jsnum \<Rightarrow> jsnum \<Rightarrow> bool" where
  "js_le NaN _ = False"
| "js_le _ NaN = False"
| "js_le NegInf _ = True"
| "js_le _ PosInf = True"
| "js_le (Num a) (Num b) = (a \<le> b)"
| "js_le _ _ = False"

definition js_ge :: "jsnum \<Rightarrow> jsnum \<Rightarrow> bool" where
  "js_ge a b = js_le b a"

fun truthy_num :: "jsnum \<Rightarrow> bool" where
  "truthy_num NaN = False"
| "truthy_num (Num a) = (a \<noteq> 0)"
| "truthy_num _ = True"

record profile =
  p_id :: uuid
  p_email :: string
  p_full_name :: string
  p_role :: string
  p_phone :: "string option"
  p_created_at :: nat

record land_record =
  lr_id :: uuid
  lr_title :: string
  lr_location :: string
  lr_coordinates :: "string option"
  lr_size :: jsnum
  lr_size_unit :: string
  lr_ownership_status :: string
  lr_zoning :: string
  lr_price :: "jsnum option"
  lr_description :: "string option"
  lr_owner_id :: "uuid option"
  lr_verified_by :: "uuid option"
  lr_created_at :: nat
  lr_updated_at :: nat

record ownership_document =
  d_id :: uuid
  d_land_record_id :: "uuid option"
  d_document_type :: string
  d_document_url :: string
  d_status :: string
  d_submitted_by :: "uuid option"
  d_reviewed_by :: "uuid option"
  d_notes :: "string option"
  d_created_at :: nat

record notification =
  n_id :: uuid
  n_user_id :: "uuid option"
  n_title :: string
  n_message :: string
  n_type :: string
  n_read :: "bool option"
  n_created_at :: nat

record database =
  profiles :: "profile list"
  land_records :: "land_record list"
  ownership_documents :: "ownership_document list"
  notifications :: "notification list"

section \<open>Row-level security\<close>

text \<open>
  A policy as \<^verbatim>\<open>CREATE POLICY\<close> declares it: the command it is for, its
  \<^verbatim>\<open>USING\<close> expression and its \<^verbatim>\<open>WITH CHECK\<close> expression, each optional. The
  expressions read the database, the caller (\<^verbatim>\<open>auth.uid()\<close>) and the row. Every
  policy of the migration is \<^verbatim>\<open>TO authenticated\<close> and permissive.
\<close>

datatype command = For_Select | For_Insert | For_Update | For_Delete | For_All

record 'r policy =
  pol_name :: string
  pol_cmd :: command
  pol_using :: "(database \<Rightarrow> uuid \<Rightarrow> 'r \<Rightarrow> bool) option"
  pol_with_check :: "(database \<Rightarrow> uuid \<Rightarrow> 'r \<Rightarrow> bool) option"

text \<open>
  How the database combines the policies of a table on which row-level security is
  enabled: the policies for the command and those \<^verbatim>\<open>FOR ALL\<close> apply; permissive
  policies are joined by OR; with no applicable policy the row is denied. A new row is
  checked against \<^verbatim>\<open>WITH CHECK\<close>, and against \<^verbatim>\<open>USING\<close> where a policy has no
  \<^verbatim>\<open>WITH CHECK\<close>.
\<close>

definition applies_to :: "command \<Rightarrow> 'r policy \<Rightarrow> bool" where
  "applies_to cmd p = (pol_cmd p = For_All \<or> pol_cmd p = cmd)"

definition using_passes ::
  "'r policy list \<Rightarrow> command \<Rightarrow> database \<Rightarrow> uuid \<Rightarrow> 'r \<Rightarrow> bool" where
  "using_passes pols cmd db uid r =
     list_ex (\<lambda>p. applies_to cmd p \<and>
        (case pol_using p of None \<Rightarrow> False | Some q \<Rightarrow> q db uid r)) pols"

definition check_passes ::
  "'r policy list \<Rightarrow> command \<Rightarrow> database \<Rightarrow> uuid \<Rightarrow> 'r \<Rightarrow> bool" where
  "check_passes pols cmd db uid r =
     list_ex (\<lambda>p. applies_to cmd p \<and>
        (case pol_with_check p of
           Some c \<Rightarrow> c db uid r
         | None \<Rightarrow> (case pol_using p of None \<Rightarrow> False | Some q \<Rightarrow> q db uid r))) pols"

definition rls_select :: "'r policy list \<Rightarrow> database \<Rightarrow> uuid \<Rightarrow> 'r list \<Rightarrow> 'r list" where
  "rls_select pols db uid rows = filter (using_passes pols For_Select db uid) rows"

subsection \<open>The policies of the migration\<close>

definition profiles_policies :: "profile policy list" where
  "profiles_policies =
    [\<lparr>pol_name = ''Users can read all profiles'', pol_cmd = For_Select,
      pol_using = Some (\<lambda>db uid r. True), pol_with_check = None\<rparr>,
     \<lparr>pol_name = ''Users can update own profile'', pol_cmd = For_Update,
      pol_using = Some (\<lambda>db uid r. uid = p_id r), pol_with_check = None\<rparr>,
     \<lparr>pol_name = ''Users can insert own profile'', pol_cmd = For_Insert,
      pol_using = None, pol_with_check = Some (\<lambda>db uid r. uid = p_id r)\<rparr>]"

text \<open>
  \<^verbatim>\<open>EXISTS (SELECT 1 FROM profiles WHERE id = auth.uid() AND role = 'admin')\<close>, the
  subquery run as the caller, hence over the profiles the caller may read.
\<close>

definition is_admin :: "database \<Rightarrow> uuid \<Rightarrow> bool" where
  "is_admin db uid =
     list_ex (\<lambda>p. p_id p = uid \<and> p_role p = ''admin'')
       (rls_select profiles_policies db uid (profiles db))"

definition land_records_policies :: "land_record policy list" where
  "land_records_policies =
    [\<lparr>pol_name = ''Anyone can read land records'', pol_cmd = For_Select,
      pol_using = Some (\<lambda>db uid r. True), pol_with_check = None\<rparr>,
     \<lparr>pol_name = ''Admins can manage all land records'', pol_cmd = For_All,
      pol_using = Some (\<lambda>db uid r. is_admin db uid), pol_with_check = None\<rparr>,
     \<lparr>pol_name = ''Landowners can manage their own land records'', pol_cmd = For_All,
      pol_using = Some (\<lambda>db uid r. lr_owner_id r = Some uid \<or> is_admin db uid),
      pol_with_check = None\<rparr>]"

text \<open>
  \<^verbatim>\<open>EXISTS (SELECT 1 FROM land_records lr WHERE lr.id = land_record_id AND
  lr.owner_id = auth.uid())\<close>, again over the land records the caller may read. A NULL
  \<^verbatim>\<open>land_record_id\<close> or \<^verbatim>\<open>owner_id\<close> makes the comparison fail.
\<close>

definition owns_land :: "database \<Rightarrow> uuid \<Rightarrow> uuid option \<Rightarrow> bool" where
  "owns_land db uid land_record_id =
     list_ex (\<lambda>lr. Some (lr_id lr) = land_record_id \<and> lr_owner_id lr = Some uid)
       (rls_select land_records_policies db uid (land_records db))"

definition ownership_documents_policies :: "ownership_document policy list" where
  "ownership_documents_policies =
    [\<lparr>pol_name = ''Users can read documents for their land'', pol_cmd = For_Select,
      pol_using = Some (\<lambda>db uid r.
        d_submitted_by r = Some uid \<or> owns_land db uid (d_land_record_id r) \<or> is_admin db uid),
      pol_with_check = None\<rparr>,
     \<lparr>pol_name = ''Users can insert documents for their land'', pol_cmd = For_Insert,
      pol_using = None,
      pol_with_check = Some (\<lambda>db uid r.
        d_submitted_by r = Some uid \<and> owns_land db uid (d_land_record_id r))\<rparr>,
     \<lparr>pol_name = ''Admins can manage all documents'', pol_cmd = For_All,
      pol_using = Some (\<lambda>db uid r. is_admin db uid), pol_with_check = None\<rparr>]"

definition notifications_policies :: "notification policy list" where
  "notifications_policies =
    [\<lparr>pol_name = ''Users can read their own notifications'', pol_cmd = For_Select,
      pol_using = Some (\<lambda>db uid r. n_user_id r = Some uid), pol_with_check = None\<rparr>,
     \<lparr>pol_name = ''Users can update their own notifications'', pol_cmd = For_Update,
      pol_using = Some (\<lambda>db uid r. n_user_id r = Some uid), pol_with_check = None\<rparr>,
     \<lparr>pol_name = ''System can create notifications'', pol_cmd = For_Insert,
      pol_using = None, pol_with_check = Some (\<lambda>db uid r. True)\<rparr>]"

subsection \<open>Statements under row-level security\<close>

datatype db_error =
    RlsViolation
  | CheckViolation
  | NotNullViolation
  | UniqueViolation
  | ForeignKeyViolation
  | PlatformError string string

text \<open>
  \<^verbatim>\<open>error.code\<close>: the SQLSTATE of a database error, and whatever code comes with
  another failure of the platform or of the transport. The text the platform sends
  with an error (\<^verbatim>\<open>error.message\<close>) is not fixed here; a \<open>PlatformError\<close> carries
  its own.
\<close>

fun error_code :: "db_error \<Rightarrow> string" where
  "error_code RlsViolation = ''42501''"
| "error_code CheckViolation = ''23514''"
| "error_code NotNullViolation = ''23502''"
| "error_code UniqueViolation = ''23505''"
| "error_code ForeignKeyViolation = ''23503''"
| "error_code (PlatformError c m) = c"

text \<open>A \<^verbatim>\<open>REFERENCES\<close> column: NULL, or the key of a row of the referenced table.\<close>

definition fk_ok :: "uuid list \<Rightarrow> uuid option \<Rightarrow> bool" where
  "fk_ok keys ref = (case ref of None \<Rightarrow> True | Some k \<Rightarrow> k \<in> set keys)"

text \<open>
  \<^verbatim>\<open>INSERT\<close> of one row: the row-level-security check of the new row, then the
  table's \<^verbatim>\<open>CHECK\<close> and \<^verbatim>\<open>NOT NULL\<close> constraints, its primary key, its foreign
  keys. The row is appended, or the statement fails and the table is as before.
\<close>

definition rls_insert ::
  "'r policy list \<Rightarrow> ('r \<Rightarrow> db_error option) \<Rightarrow> ('r \<Rightarrow> uuid) \<Rightarrow> (database \<Rightarrow> 'r \<Rightarrow> bool)
     \<Rightarrow> database \<Rightarrow> uuid \<Rightarrow> 'r \<Rightarrow> 'r list \<Rightarrow> db_error + 'r list" where
  "rls_insert pols checks key fks db uid r rows =
     (if \<not> check_passes pols For_Insert db uid r then Inl RlsViolation
      else case checks r of
        Some e \<Rightarrow> Inl e
      | None \<Rightarrow>
          if key r \<in> set (map key rows) then Inl UniqueViolation
          else if \<not> fks db r then Inl ForeignKeyViolation
          else Inr (rows @ [r]))"

text \<open>
  \<^verbatim>\<open>UPDATE ... WHERE\<close>: the rows hit are those that match the filter, that the caller
  may read (the filter reads the row) and that pass \<^verbatim>\<open>USING\<close> for UPDATE; the others
  are skipped without an error. Each new row must pass the check for UPDATE and stay
  readable, and must satisfy the constraints \<open>cs\<close>; otherwise the whole statement
  fails and nothing is changed. No update of the client assigns a key.
\<close>

definition update_target ::
  "'r policy list \<Rightarrow> database \<Rightarrow> uuid \<Rightarrow> ('r \<Rightarrow> bool) \<Rightarrow> 'r \<Rightarrow> bool" where
  "update_target pols db uid wh r =
     (wh r \<and> using_passes pols For_Select db uid r \<and> using_passes pols For_Update db uid r)"

definition new_row_passes :: "'r policy list \<Rightarrow> database \<Rightarrow> uuid \<Rightarrow> 'r \<Rightarrow> bool" where
  "new_row_passes pols db uid r =
     (check_passes pols For_Update db uid r \<and> using_passes pols For_Select db uid r)"

fun update_rows ::
  "('r \<Rightarrow> bool) \<Rightarrow> ('r \<Rightarrow> bool) \<Rightarrow> ('r \<Rightarrow> db_error option) \<Rightarrow> ('r \<Rightarrow> 'r) \<Rightarrow> 'r list
     \<Rightarrow> db_error + 'r list" where
  "update_rows tgt ok cs f [] = Inr []"
| "update_rows tgt ok cs f (r # rs) =
     (if tgt r then
        (if \<not> ok (f r) then Inl RlsViolation
         else case cs (f r) of
           Some e \<Rightarrow> Inl e
         | None \<Rightarrow> (case update_rows tgt ok cs f rs of
                      Inl e \<Rightarrow> Inl e
                    | Inr rs' \<Rightarrow> Inr (f r # rs')))
      else (case update_rows tgt ok cs f rs of
              Inl e \<Rightarrow> Inl e
            | Inr rs' \<Rightarrow> Inr (r # rs')))"

definition rls_update ::
  "'r policy list \<Rightarrow> (database \<Rightarrow> 'r \<Rightarrow> db_error option) \<Rightarrow> database \<Rightarrow> uuid
     \<Rightarrow> ('r \<Rightarrow> bool) \<Rightarrow> ('r \<Rightarrow> 'r) \<Rightarrow> 'r list \<Rightarrow> db_error + 'r list" where
  "rls_update pols cs db uid wh f rows =
     update_rows (update_target pols db uid wh) (new_row_passes pols db uid) (cs db) f rows"

text \<open>
  \<^verbatim>\<open>DELETE ... WHERE\<close>: the rows removed are those that match the filter, that the
  caller may read and that pass \<^verbatim>\<open>USING\<close> for DELETE. A row that does not pass is
  kept, and the statement reports no error.
\<close>

definition rls_delete ::
  "'r policy list \<Rightarrow> database \<Rightarrow> uuid \<Rightarrow> ('r \<Rightarrow> bool) \<Rightarrow> 'r list \<Rightarrow> 'r list" where
  "rls_delete pols db uid wh rows =
     filter (\<lambda>r. \<not> (wh r \<and> using_passes pols For_Select db uid r
                        \<and> using_passes pols For_Delete db uid r)) rows"

text \<open>
  A request to the platform either fails before it is executed (\<open>Some e\<close>: the
  transport or the platform reports \<open>e\<close>) or is executed by the database.
\<close>

definition request :: "db_error option \<Rightarrow> (db_error + 'a) \<Rightarrow> (db_error + 'a)" where
  "request fault r = (case fault of Some e \<Rightarrow> Inl e | None \<Rightarrow> r)"

subsection \<open>The constraints of the tables\<close>

definition ownership_documents_checks :: "ownership_document \<Rightarrow> db_error option" where
  "ownership_documents_checks r =
     (if d_document_type r \<notin> set [''deed'', ''survey'', ''certificate'', ''other'']
      then Some CheckViolation
      else if d_status r \<notin> set [''pending'', ''approved'', ''rejected'']
      then Some CheckViolation
      else None)"

definition ownership_documents_fks :: "database \<Rightarrow> ownership_document \<Rightarrow> bool" where
  "ownership_documents_fks db r =
     (fk_ok (map lr_id (land_records db)) (d_land_record_id r)
      \<and> fk_ok (map p_id (profiles db)) (d_submitted_by r)
      \<and> fk_ok (map p_id (profiles db)) (d_reviewed_by r))"

text \<open>
  \<^verbatim>\<open>size decimal NOT NULL\<close>: the client sends a number as JSON, where NaN and the
  infinities are written \<^verbatim>\<open>null\<close>.
\<close>

definition land_records_checks :: "land_record \<Rightarrow> db_error option" where
  "land_records_checks r =
     (if (case lr_size r of Num x \<Rightarrow> False | _ \<Rightarrow> True) then Some NotNullViolation
      else if lr_ownership_status r \<notin> set [''verified'', ''pending'', ''disputed'']
      then Some CheckViolation
      else None)"

definition land_records_fks :: "database \<Rightarrow> land_record \<Rightarrow> bool" where
  "land_records_fks db r =
     (fk_ok (map p_id (profiles db)) (lr_owner_id r)
      \<and> fk_ok (map p_id (profiles db)) (lr_verified_by r))"

definition notifications_checks :: "notification \<Rightarrow> db_error option" where
  "notifications_checks r =
     (if n_type r \<notin> set [''info'', ''warning'', ''success'', ''error'']
      then Some CheckViolation
      else None)"

definition notifications_fks :: "database \<Rightarrow> notification \<Rightarrow> bool" where
  "notifications_fks db r = fk_ok (map p_id (profiles db)) (n_user_id r)"

subsection \<open>Inserting an ownership document\<close>

definition insert_ownership_document ::
  "database \<Rightarrow> uuid \<Rightarrow> ownership_document \<Rightarrow> db_error + database" where
  "insert_ownership_document db uid r =
     (case rls_insert ownership_documents_policies ownership_documents_checks d_id
             ownership_documents_fks db uid r (ownership_documents db) of
        Inl e \<Rightarrow> Inl e
      | Inr rows \<Rightarrow> Inr (db\<lparr>ownership_documents := rows\<rparr>))"

text \<open>What the table itself asks of a new row, whoever inserts it.\<close>

definition document_row_ok :: "database \<Rightarrow> ownership_document \<Rightarrow> bool" where
  "document_row_ok db r =
     (ownership_documents_checks r = None
      \<and> d_id r \<notin> set (map d_id (ownership_documents db))
      \<and> ownership_documents_fks db r)"

subsection \<open>The constraints an update can violate\<close>

text \<open>
  A row of a table satisfies the table's constraints, so an \<^verbatim>\<open>UPDATE\<close> can only
  violate the constraints on the columns it assigns: each update below is checked
  against those.
\<close>

definition review_constraints :: "database \<Rightarrow> ownership_document \<Rightarrow> db_error option" where
  "review_constraints db r =
     (if d_status r \<notin> set [''pending'', ''approved'', ''rejected''] then Some CheckViolation
      else if \<not> fk_ok (map p_id (profiles db)) (d_reviewed_by r) then Some ForeignKeyViolation
      else None)"

definition verify_constraints :: "database \<Rightarrow> land_record \<Rightarrow> db_error option" where
  "verify_constraints db r =
     (if lr_ownership_status r \<notin> set [''verified'', ''pending'', ''disputed'']
      then Some CheckViolation
      else if \<not> fk_ok (map p_id (profiles db)) (lr_verified_by r) then Some ForeignKeyViolation
      else None)"

definition status_constraint :: "database \<Rightarrow> land_record \<Rightarrow> db_error option" where
  "status_constraint db r =
     (if lr_ownership_status r \<notin> set [''verified'', ''pending'', ''disputed'']
      then Some CheckViolation
      else None)"

text \<open>
  \<^verbatim>\<open>.order('created_at', { ascending: false })\<close>: the rows by descending time. SQL
  leaves the order of rows of equal time to the database; \<open>tie\<close> ranks the rows as
  the database returns them, the higher rank first.
\<close>

definition order_desc :: "('r \<Rightarrow> nat) \<Rightarrow> ('r \<Rightarrow> nat) \<Rightarrow> 'r list \<Rightarrow> 'r list" where
  "order_desc tie key rows = rev (sort_key key (sort_key tie rows))"

section \<open>What the client does when a data access fails\<close>

text \<open>
  Every place of the client that calls the platform. \<^verbatim>\<open>fetchProfile\<close> is listed
  twice: as the provider runs it on its own, and as \<^verbatim>\<open>updateProfile\<close> runs it for
  the profile screen's \<^verbatim>\<open>handleSave\<close>.
\<close>

datatype call_site =
    Auth_getSession
  | Auth_fetchProfile
  | Auth_debug_getSession
  | Auth_debug_select
  | Auth_signUp
  | Auth_signUp_insertProfile
  | Auth_signIn
  | Auth_signOut
  | Auth_updateProfile
  | Auth_updateProfile_fetchProfile
  | AdminDashboard_countLands
  | AdminDashboard_countPendingDocuments
  | AdminDashboard_countUsers
  | AdminDashboard_countPendingTransactions
  | AdminDashboard_landTypes
  | AdminDashboard_countActiveUsers
  | AdminDashboard_countVerifiedUsers
  | AdminUsers_fetchUsers
  | AdminLands_fetchLands
  | AdminLands_handleAddLand
  | AdminLands_handleVerifyLand
  | AdminLands_handleDeleteLand
  | AdminDocuments_fetchDocuments
  | AdminDocuments_handleDocumentAction_update
  | AdminDocuments_handleDocumentAction_notify
  | LandownerDashboard_fetchMyLands
  | LandownerDashboard_handleAddLand
  | LandownerDocuments_fetchDocuments
  | LandownerDocuments_fetchMyLands
  | LandownerDocuments_handleSubmitDocument
  | Notifications_fetchNotifications
  | Notifications_markAsRead
  | Notifications_deleteNotification
  | Notifications_markAllAsRead
  | PublicSearch_fetchLands
  | PublicSearch_requestOwnershipVerification
  | PublicLands_fetchLands
  | PublicZoning_fetchZoningLaws

text \<open>
  A failure reaches the caller as the \<^verbatim>\<open>error\<close> field of the reply, or as an
  exception (a rejected promise).
\<close>

datatype failure = ErrorReply db_error | Thrown db_error

fun failure_error :: "failure \<Rightarrow> db_error" where
  "failure_error (ErrorReply e) = e"
| "failure_error (Thrown e) = e"

text \<open>
  The message of an alert: a text of the code, or \<^verbatim>\<open>error.message || fallback\<close>,
  the text the platform sent with the error and, where that is empty, the fallback.
\<close>

datatype alert_text = Text string | ErrorMessageOr db_error string

text \<open>What an alert shows, given the text \<open>msg e\<close> the platform sends with \<open>e\<close>.\<close>

fun shown_text :: "(db_error \<Rightarrow> string) \<Rightarrow> alert_text \<Rightarrow> string" where
  "shown_text msg (Text t) = t"
| "shown_text msg (ErrorMessageOr e fallback) = (if msg e = [] then fallback else msg e)"

text \<open>The text of the code in a message.\<close>

fun fixed_part :: "alert_text \<Rightarrow> string" where
  "fixed_part (Text t) = t"
| "fixed_part (ErrorMessageOr e fallback) = fallback"

text \<open>
  What a handler does that can be seen from outside: a call of \<^verbatim>\<open>console.error\<close>
  (what it prints is left out), an alert with its title and message, the screen's
  loading flag being set, a call of the platform being issued.
\<close>

datatype effect =
    ConsoleError
  | Alert string alert_text
  | SetLoading bool
  | DataAccess call_site

text \<open>
  What \<^verbatim>\<open>signUp\<close> and the auth screen do after the two debug probes when the
  sign-up succeeds (it then yields a user, whose profile is inserted), and what the
  dashboard does in its \<^verbatim>\<open>catch\<close> and \<^verbatim>\<open>finally\<close> blocks.
\<close>

definition after_debug_probes :: "effect list" where
  "after_debug_probes =
     [DataAccess Auth_signUp, DataAccess Auth_signUp_insertProfile,
      Alert ''Success''
        (Text ''Account created successfully! Please check your email to verify your account.''),
      SetLoading False]"

definition dashboard_catch :: "effect list" where
  "dashboard_catch =
     [ConsoleError, Alert ''Error'' (Text ''Failed to load dashboard data''), SetLoading False]"

text \<open>
  The effects of the client from the failure of a call on, every later call
  succeeding: the \<^verbatim>\<open>catch\<close> block the failure reaches (through the caller's,
  where the auth provider rethrows), the \<^verbatim>\<open>finally\<close> block, and what the caller
  goes on to do. Where the code does not look at the reply's error, an error reply runs
  the rest of the \<^verbatim>\<open>try\<close> block instead. The dashboard issues its first four
  queries together, then the fifth, then the last two together. A reply of
  \<^verbatim>\<open>getSession\<close> with an error carries no session.
\<close>

fun failure_effects :: "call_site \<Rightarrow> failure \<Rightarrow> effect list" where
  "failure_effects Auth_getSession (ErrorReply e) =
     [ConsoleError, SetLoading False]"
| "failure_effects Auth_getSession (Thrown e) =
     [ConsoleError, SetLoading False]"
| "failure_effects Auth_fetchProfile (ErrorReply e) =
     ConsoleError #
     (if error_code e = ''42P01'' then [ConsoleError, ConsoleError] else [])
     @ [SetLoading False]"
| "failure_effects Auth_fetchProfile (Thrown e) =
     [ConsoleError, SetLoading False]"
| "failure_effects Auth_debug_getSession (ErrorReply e) =
     DataAccess Auth_debug_select # after_debug_probes"
| "failure_effects Auth_debug_getSession (Thrown e) =
     ConsoleError # DataAccess Auth_debug_select # after_debug_probes"
| "failure_effects Auth_debug_select (ErrorReply e) = after_debug_probes"
| "failure_effects Auth_debug_select (Thrown e) = ConsoleError # after_debug_probes"
| "failure_effects Auth_signUp (ErrorReply e) =
     [ConsoleError,
      ConsoleError,
      Alert ''Error'' (ErrorMessageOr e ''An error occurred''), SetLoading False]"
| "failure_effects Auth_signUp (Thrown e) =
     [ConsoleError,
      Alert ''Error'' (ErrorMessageOr e ''An error occurred''), SetLoading False]"
| "failure_effects Auth_signUp_insertProfile (ErrorReply e) =
     [ConsoleError,
      ConsoleError,
      Alert ''Error'' (ErrorMessageOr e ''An error occurred''), SetLoading False]"
| "failure_effects Auth_signUp_insertProfile (Thrown e) =
     [ConsoleError,
      Alert ''Error'' (ErrorMessageOr e ''An error occurred''), SetLoading False]"
| "failure_effects Auth_signIn (ErrorReply e) =
     [ConsoleError,
      ConsoleError,
      Alert ''Error'' (ErrorMessageOr e ''An error occurred''), SetLoading False]"
| "failure_effects Auth_signIn (Thrown e) =
     [ConsoleError,
      Alert ''Error'' (ErrorMessageOr e ''An error occurred''), SetLoading False]"
| "failure_effects Auth_signOut (ErrorReply e) =
     [ConsoleError,
      ConsoleError,
      Alert ''Error'' (ErrorMessageOr e ''Failed to sign out'')]"
| "failure_effects Auth_signOut (Thrown e) =
     [ConsoleError,
      Alert ''Error'' (ErrorMessageOr e ''Failed to sign out'')]"
| "failure_effects Auth_updateProfile (ErrorReply e) =
     [ConsoleError,
      ConsoleError,
      Alert ''Error'' (ErrorMessageOr e ''Failed to update profile'')]"
| "failure_effects Auth_updateProfile (Thrown e) =
     [ConsoleError,
      Alert ''Error'' (ErrorMessageOr e ''Failed to update profile'')]"
| "failure_effects Auth_updateProfile_fetchProfile (ErrorReply e) =
     ConsoleError #
     (if error_code e = ''42P01'' then [ConsoleError, ConsoleError] else [])
     @ [SetLoading False, Alert ''Success'' (Text ''Profile updated successfully'')]"
| "failure_effects Auth_updateProfile_fetchProfile (Thrown e) =
     [ConsoleError, SetLoading False, Alert ''Success'' (Text ''Profile updated successfully'')]"
| "failure_effects AdminDashboard_countLands (ErrorReply e) =
     [DataAccess AdminDashboard_landTypes, DataAccess AdminDashboard_countActiveUsers,
      DataAccess AdminDashboard_countVerifiedUsers, SetLoading False]"
| "failure_effects AdminDashboard_countLands (Thrown e) = dashboard_catch"
| "failure_effects AdminDashboard_countPendingDocuments (ErrorReply e) =
     [DataAccess AdminDashboard_landTypes, DataAccess AdminDashboard_countActiveUsers,
      DataAccess AdminDashboard_countVerifiedUsers, SetLoading False]"
| "failure_effects AdminDashboard_countPendingDocuments (Thrown e) = dashboard_catch"
| "failure_effects AdminDashboard_countUsers (ErrorReply e) =
     [DataAccess AdminDashboard_landTypes, DataAccess AdminDashboard_countActiveUsers,
      DataAccess AdminDashboard_countVerifiedUsers, SetLoading False]"
| "failure_effects AdminDashboard_countUsers (Thrown e) = dashboard_catch"
| "failure_effects AdminDashboard_countPendingTransactions (ErrorReply e) =
     [DataAccess AdminDashboard_landTypes, DataAccess AdminDashboard_countActiveUsers,
      DataAccess AdminDashboard_countVerifiedUsers, SetLoading False]"
| "failure_effects AdminDashboard_countPendingTransactions (Thrown e) = dashboard_catch"
| "failure_effects AdminDashboard_landTypes (ErrorReply e) =
     [DataAccess AdminDashboard_countActiveUsers, DataAccess AdminDashboard_countVerifiedUsers,
      SetLoading False]"
| "failure_effects AdminDashboard_landTypes (Thrown e) = dashboard_catch"
| "failure_effects AdminDashboard_countActiveUsers (ErrorReply e) = [SetLoading False]"
| "failure_effects AdminDashboard_countActiveUsers (Thrown e) = dashboard_catch"
| "failure_effects AdminDashboard_countVerifiedUsers (ErrorReply e) = [SetLoading False]"
| "failure_effects AdminDashboard_countVerifiedUsers (Thrown e) = dashboard_catch"
| "failure_effects AdminUsers_fetchUsers f =
     [ConsoleError,
      Alert ''Error'' (Text ''Failed to load users''), SetLoading False]"
| "failure_effects AdminLands_fetchLands f =
     [ConsoleError,
      Alert ''Error'' (Text ''Failed to load land records''), SetLoading False]"
| "failure_effects AdminLands_handleAddLand f =
     [ConsoleError,
      Alert ''Error'' (ErrorMessageOr (failure_error f) ''Failed to add land record'')]"
| "failure_effects AdminLands_handleVerifyLand f =
     [ConsoleError,
      Alert ''Error'' (ErrorMessageOr (failure_error f) ''Failed to update land record'')]"
| "failure_effects AdminLands_handleDeleteLand f =
     [ConsoleError,
      Alert ''Error'' (ErrorMessageOr (failure_error f) ''Failed to delete land record'')]"
| "failure_effects AdminDocuments_fetchDocuments f =
     [ConsoleError,
      Alert ''Error'' (Text ''Failed to load documents''), SetLoading False]"
| "failure_effects AdminDocuments_handleDocumentAction_update f =
     [ConsoleError,
      Alert ''Error'' (ErrorMessageOr (failure_error f) ''Failed to update document'')]"
| "failure_effects AdminDocuments_handleDocumentAction_notify (ErrorReply e) = []"
| "failure_effects AdminDocuments_handleDocumentAction_notify (Thrown e) =
     [ConsoleError,
      Alert ''Error'' (ErrorMessageOr e ''Failed to update document'')]"
| "failure_effects LandownerDashboard_fetchMyLands f =
     [ConsoleError,
      Alert ''Error'' (Text ''Failed to load your land records''), SetLoading False]"
| "failure_effects LandownerDashboard_handleAddLand f =
     [ConsoleError,
      Alert ''Error'' (ErrorMessageOr (failure_error f) ''Failed to add land record'')]"
| "failure_effects LandownerDocuments_fetchDocuments f =
     [ConsoleError,
      Alert ''Error'' (Text ''Failed to load documents''), SetLoading False]"
| "failure_effects LandownerDocuments_fetchMyLands f =
     [ConsoleError]"
| "failure_effects LandownerDocuments_handleSubmitDocument f =
     [ConsoleError,
      Alert ''Error'' (ErrorMessageOr (failure_error f) ''Failed to submit document'')]"
| "failure_effects Notifications_fetchNotifications f =
     [ConsoleError,
      Alert ''Error'' (Text ''Failed to load notifications''), SetLoading False]"
| "failure_effects Notifications_markAsRead f =
     [ConsoleError]"
| "failure_effects Notifications_deleteNotification f =
     [ConsoleError,
      Alert ''Error'' (Text ''Failed to delete notification'')]"
| "failure_effects Notifications_markAllAsRead f =
     [ConsoleError,
      Alert ''Error'' (Text ''Failed to mark all notifications as read'')]"
| "failure_effects PublicSearch_fetchLands f =
     [ConsoleError,
      Alert ''Error'' (Text ''Failed to load land records''), SetLoading False]"
| "failure_effects PublicSearch_requestOwnershipVerification (ErrorReply e) =
     [Alert ''Success'' (Text ''Verification request sent to the land owner'')]"
| "failure_effects PublicSearch_requestOwnershipVerification (Thrown e) =
     [ConsoleError,
      Alert ''Error'' (Text ''Failed to send verification request'')]"
| "failure_effects PublicLands_fetchLands f =
     [ConsoleError,
      Alert ''Error'' (Text ''Failed to load land records''), SetLoading False]"
| "failure_effects PublicZoning_fetchZoningLaws f =
     [ConsoleError,
      Alert ''Error'' (Text ''Failed to load zoning laws''), SetLoading False]"

text \<open>The alerts among the effects, and the data accesses among them.\<close>

fun is_alert :: "effect \<Rightarrow> bool" where
  "is_alert (Alert t m) = True"
| "is_alert _ = False"

fun is_data_access :: "effect \<Rightarrow> bool" where
  "is_data_access (DataAccess c) = True"
| "is_data_access _ = False"

section \<open>The landowner's notifications screen\<close>

text \<open>
  Each handler takes the screen's list, the database, the caller's identity and the
  fault of its request, and returns the database, the screen's list and the effects.
  Here and in the screens below, state that only drives the display (the modal, the
  form being reset) is left out.
\<close>

definition fetchNotifications ::
  "(notification \<Rightarrow> nat) \<Rightarrow> profile \<Rightarrow> notification list \<Rightarrow> database \<Rightarrow> uuid
     \<Rightarrow> db_error option \<Rightarrow> notification list \<times> effect list" where
  "fetchNotifications tie prof notifs db uid fault =
     (case request fault
             (Inr (order_desc tie n_created_at
                (filter (\<lambda>n. n_user_id n = Some (p_id prof))
                   (rls_select notifications_policies db uid (notifications db))))) of
        Inl e \<Rightarrow> (notifs, failure_effects Notifications_fetchNotifications (ErrorReply e))
      | Inr data \<Rightarrow> (data, [SetLoading False]))"

text \<open>\<^verbatim>\<open>!n.read\<close>: a NULL flag counts as unread.\<close>

definition unread :: "notification \<Rightarrow> bool" where
  "unread n = (n_read n \<noteq> Some True)"

definition mark_read :: "notification \<Rightarrow> notification" where
  "mark_read n = n\<lparr>n_read := Some True\<rparr>"

text \<open>\<^verbatim>\<open>update({ read: true })\<close> assigns no column that carries a constraint.\<close>

definition markAsRead ::
  "notification list \<Rightarrow> database \<Rightarrow> uuid \<Rightarrow> uuid \<Rightarrow> db_error option
     \<Rightarrow> database \<times> notification list \<times> effect list" where
  "markAsRead notifs db uid notificationId fault =
     (case request fault
             (rls_update notifications_policies (\<lambda>db r. None) db uid
                (\<lambda>r. n_id r = notificationId) mark_read (notifications db)) of
        Inl e \<Rightarrow> (db, notifs, failure_effects Notifications_markAsRead (ErrorReply e))
      | Inr rows \<Rightarrow>
          (db\<lparr>notifications := rows\<rparr>,
           map (\<lambda>notif. if n_id notif = notificationId then mark_read notif else notif) notifs,
           []))"

definition deleteNotification ::
  "notification list \<Rightarrow> database \<Rightarrow> uuid \<Rightarrow> uuid \<Rightarrow> db_error option
     \<Rightarrow> database \<times> notification list \<times> effect list" where
  "deleteNotification notifs db uid notificationId fault =
     (case request fault
             (Inr (rls_delete notifications_policies db uid
                (\<lambda>r. n_id r = notificationId) (notifications db))) of
        Inl e \<Rightarrow> (db, notifs, failure_effects Notifications_deleteNotification (ErrorReply e))
      | Inr rows \<Rightarrow>
          (db\<lparr>notifications := rows\<rparr>,
           filter (\<lambda>notif. n_id notif \<noteq> notificationId) notifs,
           []))"

definition markAllAsRead ::
  "notification list \<Rightarrow> database \<Rightarrow> uuid \<Rightarrow> db_error option
     \<Rightarrow> database \<times> notification list \<times> effect list" where
  "markAllAsRead notifs db uid fault =
     (let unreadIds = map n_id (filter unread notifs) in
      if length unreadIds = 0 then (db, notifs, [])
      else
        (case request fault
                (rls_update notifications_policies (\<lambda>db r. None) db uid
                   (\<lambda>r. n_id r \<in> set unreadIds) mark_read (notifications db)) of
           Inl e \<Rightarrow> (db, notifs, failure_effects Notifications_markAllAsRead (ErrorReply e))
         | Inr rows \<Rightarrow> (db\<lparr>notifications := rows\<rparr>, map mark_read notifs, [])))"

section \<open>The landowner's documents screen\<close>

record document_form =
  df_land_record_id :: string
  df_document_type :: string
  df_document_url :: string
  df_notes :: string

text \<open>
  The row of \<^verbatim>\<open>handleSubmitDocument\<close>. The status is left to its default
  \<^verbatim>\<open>'pending'\<close>, the key and the time to the database; \<^verbatim>\<open>profile?.id\<close> is not sent
  without a profile, and the column is then NULL.
\<close>

definition submitted_document_row ::
  "profile option \<Rightarrow> document_form \<Rightarrow> uuid \<Rightarrow> nat \<Rightarrow> ownership_document" where
  "submitted_document_row prof formData fresh now =
     \<lparr>d_id = fresh,
      d_land_record_id = Some (df_land_record_id formData),
      d_document_type = df_document_type formData,
      d_document_url = df_document_url formData,
      d_status = ''pending'',
      d_submitted_by = map_option p_id prof,
      d_reviewed_by = None,
      d_notes = (if df_notes formData = [] then None else Some (df_notes formData)),
      d_created_at = now\<rparr>"

definition handleSubmitDocument ::
  "profile option \<Rightarrow> document_form \<Rightarrow> database \<Rightarrow> uuid \<Rightarrow> uuid \<Rightarrow> nat \<Rightarrow> db_error option
     \<Rightarrow> database \<times> effect list" where
  "handleSubmitDocument prof formData db uid fresh now fault =
     (if df_land_record_id formData = [] \<or> df_document_url formData = []
      then (db, [Alert ''Error'' (Text ''Please select a land record and provide document URL'')])
      else
        (case request fault
                (insert_ownership_document db uid
                   (submitted_document_row prof formData fresh now)) of
           Inl e \<Rightarrow> (db, failure_effects LandownerDocuments_handleSubmitDocument (ErrorReply e))
         | Inr db' \<Rightarrow>
             (db', [Alert ''Success'' (Text ''Document submitted for review''),
                    DataAccess LandownerDocuments_fetchDocuments])))"

section \<open>The admin's documents screen\<close>

text \<open>
  A row of the screen's list: the document with the columns of its land record and
  of its submitter that the query embeds (absent where the reference is NULL).
\<close>

record land_ref =
  ref_id :: uuid
  ref_title :: string
  ref_location :: string

record profile_ref =
  pref_id :: uuid
  pref_full_name :: string
  pref_email :: string

record document_view = ownership_document +
  dv_land_records :: "land_ref option"
  dv_profiles :: "profile_ref option"

datatype doc_action = Approved | Rejected

fun action_text :: "doc_action \<Rightarrow> string" where
  "action_text Approved = ''approved''"
| "action_text Rejected = ''rejected''"

text \<open>\<^verbatim>\<open>notes || null\<close>, for an argument that may be left out\<close>

definition notes_or_null :: "string option \<Rightarrow> string option" where
  "notes_or_null notes = (case notes of None \<Rightarrow> None | Some t \<Rightarrow> if t = [] then None else Some t)"

text \<open>
  The assignment of \<^verbatim>\<open>handleDocumentAction\<close>. \<^verbatim>\<open>profile?.id\<close> is undefined without
  a profile, and an undefined field is not sent: the column keeps its value.
\<close>

definition review_document ::
  "profile option \<Rightarrow> doc_action \<Rightarrow> string option \<Rightarrow> ownership_document \<Rightarrow> ownership_document" where
  "review_document prof action notes r =
     r\<lparr>d_status := action_text action,
       d_reviewed_by := (case prof of None \<Rightarrow> d_reviewed_by r | Some p \<Rightarrow> Some (p_id p)),
       d_notes := notes_or_null notes\<rparr>"

definition update_document_status ::
  "profile option \<Rightarrow> database \<Rightarrow> uuid \<Rightarrow> uuid \<Rightarrow> doc_action \<Rightarrow> string option
     \<Rightarrow> db_error option \<Rightarrow> db_error + database" where
  "update_document_status prof db uid documentId action notes fault =
     (case request fault
             (rls_update ownership_documents_policies review_constraints db uid
                (\<lambda>r. d_id r = documentId) (review_document prof action notes)
                (ownership_documents db)) of
        Inl e \<Rightarrow> Inl e
      | Inr rows \<Rightarrow> Inr (db\<lparr>ownership_documents := rows\<rparr>))"

text \<open>
  The notification of \<^verbatim>\<open>handleDocumentAction\<close>. The database supplies the key, the
  time and the unread flag. \<^verbatim>\<open>document.land_records?.title\<close> is undefined for a
  document without an embedded land record, and the template prints it so.
\<close>

definition document_notification ::
  "uuid \<Rightarrow> nat \<Rightarrow> 'a document_view_scheme \<Rightarrow> doc_action \<Rightarrow> notification" where
  "document_notification fresh now document action =
     \<lparr>n_id = fresh,
      n_user_id = d_submitted_by document,
      n_title = ''Document '' @ action_text action,
      n_message = ''Your '' @ d_document_type document @ '' document for ''
         @ (case dv_land_records document of None \<Rightarrow> ''undefined'' | Some l \<Rightarrow> ref_title l)
         @ '' has been '' @ action_text action @ ''.'',
      n_type = (if action = Approved then ''success'' else ''warning''),
      n_read = Some False,
      n_created_at = now\<rparr>"

definition insert_notification ::
  "database \<Rightarrow> uuid \<Rightarrow> notification \<Rightarrow> db_error option \<Rightarrow> db_error + database" where
  "insert_notification db uid n fault =
     (case request fault
             (rls_insert notifications_policies notifications_checks n_id notifications_fks
                db uid n (notifications db)) of
        Inl e \<Rightarrow> Inl e
      | Inr rows \<Rightarrow> Inr (db\<lparr>notifications := rows\<rparr>))"

text \<open>
  \<^verbatim>\<open>handleDocumentAction\<close>. \<^verbatim>\<open>fetchDocuments()\<close> is started and not awaited; the
  list read by \<^verbatim>\<open>documents.find\<close> is the one the handler was created with. The
  reply of the insert is not looked at.
\<close>

definition handleDocumentAction ::
  "profile option \<Rightarrow> document_view list \<Rightarrow> database \<Rightarrow> uuid \<Rightarrow> uuid \<Rightarrow> doc_action
     \<Rightarrow> string option \<Rightarrow> uuid \<Rightarrow> nat \<Rightarrow> db_error option \<Rightarrow> db_error option
     \<Rightarrow> database \<times> effect list" where
  "handleDocumentAction prof documents db uid documentId action notes fresh now fault1 fault2 =
     (case update_document_status prof db uid documentId action notes fault1 of
        Inl e \<Rightarrow> (db, failure_effects AdminDocuments_handleDocumentAction_update (ErrorReply e))
      | Inr db1 \<Rightarrow>
          (let effs = [Alert ''Success'' (Text (''Document '' @ action_text action @ '' successfully'')),
                       DataAccess AdminDocuments_fetchDocuments] in
           case find (\<lambda>doc. d_id doc = documentId) documents of
             None \<Rightarrow> (db1, effs)
           | Some document \<Rightarrow>
               (case insert_notification db1 uid
                       (document_notification fresh now document action) fault2 of
                  Inl e \<Rightarrow>
                    (db1, effs @ failure_effects AdminDocuments_handleDocumentAction_notify
                                   (ErrorReply e))
                | Inr db2 \<Rightarrow> (db2, effs))))"

section \<open>Adding and verifying land records\<close>

record land_form =
  f_title :: string
  f_location :: string
  f_coordinates :: string
  f_size :: string
  f_size_unit :: string
  f_zoning :: string
  f_price :: string
  f_description :: string

text \<open>\<^verbatim>\<open>text || null\<close>\<close>

definition or_null :: "string \<Rightarrow> string option" where
  "or_null t = (if t = [] then None else Some t)"

text \<open>A number written as JSON: NaN and the infinities become \<^verbatim>\<open>null\<close>.\<close>

fun json_number :: "jsnum \<Rightarrow> jsnum option" where
  "json_number (Num x) = Some (Num x)"
| "json_number _ = None"

text \<open>
  The row of the landowner dashboard's \<^verbatim>\<open>handleAddLand\<close>. \<^verbatim>\<open>parseFloat\<close> is the
  parameter \<open>pf\<close>. The columns the request leaves out take their defaults: a fresh
  key, the time of the insert, NULL for \<^verbatim>\<open>verified_by\<close>. A size that JSON writes
  as \<^verbatim>\<open>null\<close> stays what it was here, and \<open>land_records_checks\<close> refuses it.
\<close>

definition landowner_land_row ::
  "(string \<Rightarrow> jsnum) \<Rightarrow> profile option \<Rightarrow> land_form \<Rightarrow> uuid \<Rightarrow> nat \<Rightarrow> land_record" where
  "landowner_land_row pf prof formData fresh now =
     \<lparr>lr_id = fresh,
      lr_title = f_title formData,
      lr_location = f_location formData,
      lr_coordinates = or_null (f_coordinates formData),
      lr_size = pf (f_size formData),
      lr_size_unit = f_size_unit formData,
      lr_ownership_status = ''pending'',
      lr_zoning = f_zoning formData,
      lr_price = (if f_price formData \<noteq> [] then json_number (pf (f_price formData)) else None),
      lr_description = or_null (f_description formData),
      lr_owner_id = map_option p_id prof,
      lr_verified_by = None,
      lr_created_at = now,
      lr_updated_at = now\<rparr>"

text \<open>The row of the admin screen's \<^verbatim>\<open>handleAddLand\<close>: no owner is sent.\<close>

definition admin_land_row ::
  "(string \<Rightarrow> jsnum) \<Rightarrow> profile option \<Rightarrow> land_form \<Rightarrow> uuid \<Rightarrow> nat \<Rightarrow> land_record" where
  "admin_land_row pf prof formData fresh now =
     \<lparr>lr_id = fresh,
      lr_title = f_title formData,
      lr_location = f_location formData,
      lr_coordinates = or_null (f_coordinates formData),
      lr_size = pf (f_size formData),
      lr_size_unit = f_size_unit formData,
      lr_ownership_status = ''verified'',
      lr_zoning = f_zoning formData,
      lr_price = (if f_price formData \<noteq> [] then json_number (pf (f_price formData)) else None),
      lr_description = or_null (f_description formData),
      lr_owner_id = None,
      lr_verified_by = map_option p_id prof,
      lr_created_at = now,
      lr_updated_at = now\<rparr>"

definition insert_land_record ::
  "database \<Rightarrow> uuid \<Rightarrow> land_record \<Rightarrow> db_error option \<Rightarrow> db_error + database" where
  "insert_land_record db uid r fault =
     (case request fault
             (rls_insert land_records_policies land_records_checks lr_id land_records_fks
                db uid r (land_records db)) of
        Inl e \<Rightarrow> Inl e
      | Inr rows \<Rightarrow> Inr (db\<lparr>land_records := rows\<rparr>))"

definition form_incomplete :: "land_form \<Rightarrow> bool" where
  "form_incomplete formData =
     (f_title formData = [] \<or> f_location formData = [] \<or> f_size formData = []
      \<or> f_zoning formData = [])"

definition landowner_handleAddLand ::
  "(string \<Rightarrow> jsnum) \<Rightarrow> profile option \<Rightarrow> land_form \<Rightarrow> database \<Rightarrow> uuid \<Rightarrow> uuid \<Rightarrow> nat
     \<Rightarrow> db_error option \<Rightarrow> database \<times> effect list" where
  "landowner_handleAddLand pf prof formData db uid fresh now fault =
     (if form_incomplete formData
      then (db, [Alert ''Error'' (Text ''Please fill in all required fields'')])
      else
        (case insert_land_record db uid (landowner_land_row pf prof formData fresh now) fault of
           Inl e \<Rightarrow> (db, failure_effects LandownerDashboard_handleAddLand (ErrorReply e))
         | Inr db' \<Rightarrow>
             (db', [Alert ''Success'' (Text ''Land record submitted for verification''),
                    DataAccess LandownerDashboard_fetchMyLands])))"

definition admin_handleAddLand ::
  "(string \<Rightarrow> jsnum) \<Rightarrow> profile option \<Rightarrow> land_form \<Rightarrow> database \<Rightarrow> uuid \<Rightarrow> uuid \<Rightarrow> nat
     \<Rightarrow> db_error option \<Rightarrow> database \<times> effect list" where
  "admin_handleAddLand pf prof formData db uid fresh now fault =
     (if form_incomplete formData
      then (db, [Alert ''Error'' (Text ''Please fill in all required fields'')])
      else
        (case insert_land_record db uid (admin_land_row pf prof formData fresh now) fault of
           Inl e \<Rightarrow> (db, failure_effects AdminLands_handleAddLand (ErrorReply e))
         | Inr db' \<Rightarrow>
             (db', [Alert ''Success'' (Text ''Land record added successfully''),
                    DataAccess AdminLands_fetchLands])))"

text \<open>
  \<^verbatim>\<open>UPDATE land_records SET ownership_status = s WHERE id = landId\<close>, as any holder
  of a session may send it to the platform.
\<close>

definition land_id_is :: "uuid \<Rightarrow> land_record \<Rightarrow> bool" where
  "land_id_is landId r = (lr_id r = landId)"

definition set_ownership_status :: "string \<Rightarrow> land_record \<Rightarrow> land_record" where
  "set_ownership_status s r = r\<lparr>lr_ownership_status := s\<rparr>"

definition update_ownership_status ::
  "database \<Rightarrow> uuid \<Rightarrow> uuid \<Rightarrow> string \<Rightarrow> db_error + database" where
  "update_ownership_status db uid landId s =
     (case rls_update land_records_policies status_constraint db uid
             (land_id_is landId) (set_ownership_status s) (land_records db) of
        Inl e \<Rightarrow> Inl e
      | Inr rows \<Rightarrow> Inr (db\<lparr>land_records := rows\<rparr>))"

text \<open>
  The assignment of the admin screen's \<^verbatim>\<open>handleVerifyLand\<close>; its second argument is
  \<^verbatim>\<open>'verified'\<close> or \<^verbatim>\<open>'disputed'\<close>.
\<close>

datatype verify_action = Verified | Disputed

fun verify_text :: "verify_action \<Rightarrow> string" where
  "verify_text Verified = ''verified''"
| "verify_text Disputed = ''disputed''"

definition verify_land :: "profile option \<Rightarrow> verify_action \<Rightarrow> nat \<Rightarrow> land_record \<Rightarrow> land_record" where
  "verify_land prof action now r =
     r\<lparr>lr_ownership_status := verify_text action,
       lr_verified_by := (case prof of None \<Rightarrow> lr_verified_by r | Some p \<Rightarrow> Some (p_id p)),
       lr_updated_at := now\<rparr>"

definition handleVerifyLand ::
  "profile option \<Rightarrow> database \<Rightarrow> uuid \<Rightarrow> uuid \<Rightarrow> verify_action \<Rightarrow> nat \<Rightarrow> db_error option
     \<Rightarrow> database \<times> effect list" where
  "handleVerifyLand prof db uid landId action now fault =
     (case request fault
             (rls_update land_records_policies verify_constraints db uid
                (land_id_is landId) (verify_land prof action now) (land_records db)) of
        Inl e \<Rightarrow> (db, failure_effects AdminLands_handleVerifyLand (ErrorReply e))
      | Inr rows \<Rightarrow>
          (db\<lparr>land_records := rows\<rparr>, [Alert ''Success''
              (Text (''Land record '' @ verify_text action @ '' successfully'')),
                 DataAccess AdminLands_fetchLands]))"

section \<open>The public search screen\<close>

text \<open>
  \<^verbatim>\<open>s.includes(t)\<close>: \<open>t\<close> occurs in \<open>s\<close> as a run of consecutive characters.
  A text is the list of the bytes of its UTF-8 form; for well-formed texts a run of
  bytes is an occurrence exactly when the run of UTF-16 units is. \<^verbatim>\<open>toLowerCase\<close>
  is Unicode's; like \<^verbatim>\<open>parseFloat\<close> it is a parameter, \<open>lc\<close>, of what follows.
\<close>

fun str_includes :: "string \<Rightarrow> string \<Rightarrow> bool" where
  "str_includes [] t = (t = [])"
| "str_includes (c # cs) t = (prefix t (c # cs) \<or> str_includes cs t)"

record land_view = land_record +
  lv_profiles :: "profile_ref option"

record filters =
  minPrice :: string
  maxPrice :: string
  minSize :: string
  maxSize :: string
  zoning :: string
  status :: string

text \<open>
  A row as the client receives it: the stored decimals read as JavaScript numbers
  (\<open>read_number\<close>: the nearest double), and the embedded
  \<^verbatim>\<open>profiles:owner_id (id, full_name, email)\<close>, read as the caller.
\<close>

definition embed_owner ::
  "(jsnum \<Rightarrow> jsnum) \<Rightarrow> database \<Rightarrow> uuid \<Rightarrow> land_record \<Rightarrow> land_view" where
  "embed_owner read_number db uid l =
     land_record.extend
       (l\<lparr>lr_size := read_number (lr_size l),
          lr_price := map_option read_number (lr_price l)\<rparr>)
       \<lparr>lv_profiles =
          map_option (\<lambda>p. \<lparr>pref_id = p_id p, pref_full_name = p_full_name p, pref_email = p_email p\<rparr>)
            (find (\<lambda>p. Some (p_id p) = lr_owner_id l)
               (rls_select profiles_policies db uid (profiles db)))\<rparr>"

definition fetchLands ::
  "(land_record \<Rightarrow> nat) \<Rightarrow> (jsnum \<Rightarrow> jsnum) \<Rightarrow> land_view list \<Rightarrow> database \<Rightarrow> uuid
     \<Rightarrow> db_error option \<Rightarrow> land_view list \<times> effect list" where
  "fetchLands tie read_number lands db uid fault =
     (case request fault
             (Inr (map (embed_owner read_number db uid)
                (order_desc tie lr_created_at
                   (filter (\<lambda>l. lr_ownership_status l = ''verified'')
                      (rls_select land_records_policies db uid (land_records db)))))) of
        Inl e \<Rightarrow> (lands, failure_effects PublicSearch_fetchLands (ErrorReply e))
      | Inr data \<Rightarrow> (data, [SetLoading False]))"

text \<open>\<^verbatim>\<open>land.price && land.price >= bound\<close>: a NULL, zero or NaN price fails.\<close>

definition price_at_least :: "jsnum option \<Rightarrow> jsnum \<Rightarrow> bool" where
  "price_at_least price bound =
     (case price of None \<Rightarrow> False | Some x \<Rightarrow> truthy_num x \<and> js_ge x bound)"

definition price_at_most :: "jsnum option \<Rightarrow> jsnum \<Rightarrow> bool" where
  "price_at_most price bound =
     (case price of None \<Rightarrow> False | Some x \<Rightarrow> truthy_num x \<and> js_le x bound)"

definition matches_search ::
  "(string \<Rightarrow> string) \<Rightarrow> string \<Rightarrow> 'a land_record_scheme \<Rightarrow> bool" where
  "matches_search lc searchQuery land =
     (str_includes (lc (lr_title land)) (lc searchQuery)
      \<or> str_includes (lc (lr_location land)) (lc searchQuery)
      \<or> str_includes (lc (lr_zoning land)) (lc searchQuery))"

definition applyFilters ::
  "(string \<Rightarrow> jsnum) \<Rightarrow> (string \<Rightarrow> string) \<Rightarrow> 'a land_record_scheme list \<Rightarrow> string
     \<Rightarrow> filters \<Rightarrow> 'a land_record_scheme list" where
  "applyFilters pf lc lands searchQuery flt =
     (let filtered = lands;
          filtered = (if searchQuery \<noteq> [] then filter (matches_search lc searchQuery) filtered
                      else filtered);
          filtered = (if minPrice flt \<noteq> []
                      then filter (\<lambda>land. price_at_least (lr_price land) (pf (minPrice flt))) filtered
                      else filtered);
          filtered = (if maxPrice flt \<noteq> []
                      then filter (\<lambda>land. price_at_most (lr_price land) (pf (maxPrice flt))) filtered
                      else filtered);
          filtered = (if minSize flt \<noteq> []
                      then filter (\<lambda>land. js_ge (lr_size land) (pf (minSize flt))) filtered
                      else filtered);
          filtered = (if maxSize flt \<noteq> []
                      then filter (\<lambda>land. js_le (lr_size land) (pf (maxSize flt))) filtered
                      else filtered);
          filtered = (if zoning flt \<noteq> []
                      then filter (\<lambda>land. str_includes (lc (lr_zoning land))
                                             (lc (zoning flt))) filtered
                      else filtered)
      in filtered)"

section \<open>The auth provider (contexts/AuthContext.tsx)\<close>

record auth_user =
  u_id :: uuid
  u_email :: string

record session =
  s_user :: "auth_user option"

record auth_state =
  as_session :: "session option"
  as_user :: "auth_user option"
  as_profile :: "profile option"
  as_loading :: bool

definition initial_auth_state :: auth_state where
  "initial_auth_state =
     \<lparr>as_session = None, as_user = None, as_profile = None, as_loading = True\<rparr>"

text \<open>\<^verbatim>\<open>session?.user ?? null\<close>\<close>

definition session_user :: "session option \<Rightarrow> auth_user option" where
  "session_user sess = (case sess of None \<Rightarrow> None | Some x \<Rightarrow> s_user x)"

text \<open>
  The callbacks that change the provider's state, each run to its end (or to its first
  \<^verbatim>\<open>await\<close>): the two of \<^verbatim>\<open>getSession()\<close>, the listener of
  \<^verbatim>\<open>onAuthStateChange\<close>, the start of the \<^verbatim>\<open>fetchProfile\<close> that \<^verbatim>\<open>updateProfile\<close>
  runs after its update, and the rest of \<^verbatim>\<open>fetchProfile\<close> once its query settles.
\<close>

datatype profile_reply = ProfileData profile | ProfileError db_error | ProfileThrown

datatype auth_event =
    GetSessionResolved "session option" "db_error option"
  | GetSessionRejected
  | AuthStateChange "session option"
  | ProfileRefreshStarted
  | FetchProfileSettled profile_reply

definition fetchProfile_start :: "auth_state \<Rightarrow> auth_state" where
  "fetchProfile_start st = st\<lparr>as_loading := True\<rparr>"

definition fetchProfile_settle :: "auth_state \<Rightarrow> profile_reply \<Rightarrow> auth_state" where
  "fetchProfile_settle st reply =
     (case reply of
        ProfileData data \<Rightarrow> st\<lparr>as_profile := Some data, as_loading := False\<rparr>
      | ProfileError e \<Rightarrow> st\<lparr>as_loading := False\<rparr>
      | ProfileThrown \<Rightarrow> st\<lparr>as_loading := False\<rparr>)"

fun auth_step :: "auth_state \<Rightarrow> auth_event \<Rightarrow> auth_state" where
  "auth_step st (GetSessionResolved sess err) =
     (let st' = st\<lparr>as_session := sess, as_user := session_user sess\<rparr> in
      if session_user sess \<noteq> None then fetchProfile_start st'
      else st'\<lparr>as_loading := False\<rparr>)"
| "auth_step st GetSessionRejected = st\<lparr>as_loading := False\<rparr>"
| "auth_step st (AuthStateChange sess) =
     (let st' = st\<lparr>as_session := sess, as_user := session_user sess\<rparr> in
      if session_user sess \<noteq> None then fetchProfile_start st'
      else st'\<lparr>as_profile := None, as_loading := False\<rparr>)"
| "auth_step st ProfileRefreshStarted = fetchProfile_start st"
| "auth_step st (FetchProfileSettled reply) = fetchProfile_settle st reply"

definition auth_run :: "auth_event list \<Rightarrow> auth_state" where
  "auth_run evs = foldl auth_step initial_auth_state evs"

section \<open>Role-based routing (app/index.tsx)\<close>

datatype route = Auth | Admin | Landowner | Public

text \<open>
  The effect of \<^verbatim>\<open>IndexScreen\<close>: \<open>None\<close> while loading (no call of
  \<^verbatim>\<open>router.replace\<close>, the spinner is rendered), otherwise the target of the redirect.
  The session is opaque to the screen, which only tests it for presence.
\<close>

definition routing_decision :: "bool \<Rightarrow> 's option \<Rightarrow> profile option \<Rightarrow> route option" where
  "routing_decision loading session prof =
     (if \<not> loading then
        (if session = None \<or> prof = None then Some Auth
         else
           (let role = p_role (the prof) in
            if role = ''admin'' then Some Admin
            else if role = ''landowner'' then Some Landowner
            else if role = ''public'' then Some Public
            else Some Auth))
      else None)"

text \<open>The index screen reads session, profile and loading from the provider.\<close>

definition index_route :: "auth_state \<Rightarrow> route option" where
  "index_route st = routing_decision (as_loading st) (as_session st) (as_profile st)"

section \<open>Sample data\<close>

definition admin_profile :: profile where
  "admin_profile =
     \<lparr>p_id = ''a1'', p_email = ''admin@registry.example'', p_full_name = ''Ada Admin'',
      p_role = ''admin'', p_phone = None, p_created_at = 1\<rparr>"

definition owner_profile :: profile where
  "owner_profile =
     \<lparr>p_id = ''u1'', p_email = ''owner@registry.example'', p_full_name = ''Olu Owner'',
      p_role = ''landowner'', p_phone = None, p_created_at = 2\<rparr>"

definition other_profile :: profile where
  "other_profile =
     \<lparr>p_id = ''u2'', p_email = ''other@registry.example'', p_full_name = ''Uma Other'',
      p_role = ''landowner'', p_phone = None, p_created_at = 3\<rparr>"

definition plot_a :: land_record where
  "plot_a =
     \<lparr>lr_id = ''l1'', lr_title = ''Plot A'', lr_location = ''Abuja'', lr_coordinates = None,
      lr_size = Num 2, lr_size_unit = ''acres'', lr_ownership_status = ''pending'',
      lr_zoning = ''Residential'', lr_price = Some (Num 5000), lr_description = None,
      lr_owner_id = Some ''u1'', lr_verified_by = None, lr_created_at = 10,
      lr_updated_at = 10\<rparr>"

definition deed_a :: ownership_document where
  "deed_a =
     \<lparr>d_id = ''d1'', d_land_record_id = Some ''l1'', d_document_type = ''deed'',
      d_document_url = ''https://files.example/deed.pdf'', d_status = ''pending'',
      d_submitted_by = Some ''u1'', d_reviewed_by = None, d_notes = None,
      d_created_at = 20\<rparr>"

definition note_owner :: notification where
  "note_owner =
     \<lparr>n_id = ''n1'', n_user_id = Some ''u1'', n_title = ''Welcome'', n_message = ''Hello'',
      n_type = ''info'', n_read = Some False, n_created_at = 30\<rparr>"

definition note_other :: notification where
  "note_other =
     \<lparr>n_id = ''n2'', n_user_id = Some ''u2'', n_title = ''Welcome'', n_message = ''Hello'',
      n_type = ''info'', n_read = Some False, n_created_at = 31\<rparr>"

text \<open>A registry with one parcel and no document yet, and one with its deed filed.\<close>

definition registry :: database where
  "registry =
     \<lparr>profiles = [admin_profile, owner_profile, other_profile],
      land_records = [plot_a],
      ownership_documents = [],
      notifications = [note_owner, note_other]\<rparr>"

definition registry_with_deed :: database where
  "registry_with_deed = registry\<lparr>ownership_documents := [deed_a]\<rparr>"

definition deed_a_view :: document_view where
  "deed_a_view =
     ownership_document.extend deed_a
       \<lparr>dv_land_records = Some \<lparr>ref_id = ''l1'', ref_title = ''Plot A'', ref_location = ''Abuja''\<rparr>,
        dv_profiles = Some \<lparr>pref_id = ''u1'', pref_full_name = ''Olu Owner'',
                            pref_email = ''owner@registry.example''\<rparr>\<rparr>"

definition plot_b :: land_record where
  "plot_b =
     \<lparr>lr_id = ''l2'', lr_title = ''Plot B'', lr_location = ''Lagos'', lr_coordinates = None,
      lr_size = Num 3, lr_size_unit = ''acres'', lr_ownership_status = ''verified'',
      lr_zoning = ''Commercial'', lr_price = Some (Num 9000), lr_description = None,
      lr_owner_id = Some ''u2'', lr_verified_by = Some ''a1'', lr_created_at = 11,
      lr_updated_at = 12\<rparr>"

definition farm_c :: land_record where
  "farm_c =
     \<lparr>lr_id = ''l3'', lr_title = ''Farm C'', lr_location = ''Kano'', lr_coordinates = None,
      lr_size = Num 40, lr_size_unit = ''acres'', lr_ownership_status = ''verified'',
      lr_zoning = ''Agricultural'', lr_price = None, lr_description = None,
      lr_owner_id = None, lr_verified_by = Some ''a1'', lr_created_at = 12,
      lr_updated_at = 12\<rparr>"

text \<open>The registry with two verified parcels besides the pending one.\<close>

definition market :: database where
  "market = registry\<lparr>land_records := [plot_a, plot_b, farm_c]\<rparr>"

definition plot_b_view :: land_view where
  "plot_b_view = land_record.extend plot_b
     \<lparr>lv_profiles = Some \<lparr>pref_id = ''u2'', pref_full_name = ''Uma Other'',
                           pref_email = ''other@registry.example''\<rparr>\<rparr>"

definition farm_c_view :: land_view where
  "farm_c_view = land_record.extend farm_c \<lparr>lv_profiles = None\<rparr>"

definition price_filter :: filters where
  "price_filter = \<lparr>minPrice = ''4000'', maxPrice = [], minSize = [], maxSize = [],
     zoning = ''COMM'', status = ''verified''\<rparr>"

definition deed_form :: document_form where
  "deed_form = \<lparr>df_land_record_id = ''l1'', df_document_type = ''deed'',
     df_document_url = ''https://files.example/deed.pdf'', df_notes = []\<rparr>"

definition sample_form :: land_form where
  "sample_form = \<lparr>f_title = ''Plot D'', f_location = ''Lagos'', f_coordinates = [],
     f_size = ''3'', f_size_unit = ''acres'', f_zoning = ''Commercial'', f_price = [],
     f_description = []\<rparr>"

text \<open>
  Stand-ins on the samples: for \<^verbatim>\<open>parseFloat\<close> on their texts; for
  \<^verbatim>\<open>toLowerCase\<close>, which on their ASCII texts lowers the letters A to Z; for the
  reading of their numbers, all of them doubles; and for the order of rows of equal
  time, of which they have none.
\<close>

definition lower_char :: "char \<Rightarrow> char" where
  "lower_char c =
     (if 65 \<le> (of_char c :: nat) \<and> (of_char c :: nat) \<le> 90
      then char_of ((of_char c :: nat) + 32) else c)"

definition ascii_lower :: "string \<Rightarrow> string" where
  "ascii_lower t = map lower_char t"

definition as_stored :: "jsnum \<Rightarrow> jsnum" where
  "as_stored x = x"

definition no_tie :: "'r \<Rightarrow> nat" where
  "no_tie r = 0"


definition sample_parse :: "string \<Rightarrow> jsnum" where
  "sample_parse t = (if t = ''3'' then Num 3 else if t = ''4000'' then Num 4000 else NaN)"

definition owner_session :: session where
  "owner_session = \<lparr>s_user = Some \<lparr>u_id = ''u1'', u_email = ''owner@registry.example''\<rparr>\<rparr>"

section \<open>Row-level security of the migration, policy by policy\<close>

text \<open>
  Every profile and every land record is readable by every caller, so the subqueries
  of the policies see the whole tables.
\<close>

lemma profiles_select_all: "rls_select profiles_policies db uid rows = rows"
  by (simp add: rls_select_def using_passes_def profiles_policies_def applies_to_def)

lemma land_select_all: "rls_select land_records_policies db uid rows = rows"
  by (simp add: rls_select_def using_passes_def land_records_policies_def applies_to_def)

lemma is_admin_iff:
  "is_admin db uid = (\<exists>p \<in> set (profiles db). p_id p = uid \<and> p_role p = ''admin'')"
  by (auto simp: is_admin_def profiles_select_all list_ex_iff)

lemma owns_land_iff:
  "owns_land db uid ref =
     (\<exists>lr \<in> set (land_records db). Some (lr_id lr) = ref \<and> lr_owner_id lr = Some uid)"
  by (auto simp: owns_land_def land_select_all list_ex_iff)

lemma documents_insert_check:
  "check_passes ownership_documents_policies For_Insert db uid r =
     (is_admin db uid \<or> (d_submitted_by r = Some uid \<and> owns_land db uid (d_land_record_id r)))"
  by (auto simp: check_passes_def ownership_documents_policies_def applies_to_def)

lemma documents_update_target:
  "update_target ownership_documents_policies db uid wh r = (wh r \<and> is_admin db uid)"
  by (auto simp: update_target_def using_passes_def ownership_documents_policies_def applies_to_def)

lemma documents_new_row_passes:
  "new_row_passes ownership_documents_policies db uid r = is_admin db uid"
  by (auto simp: new_row_passes_def check_passes_def using_passes_def
      ownership_documents_policies_def applies_to_def)

lemma land_update_target:
  "update_target land_records_policies db uid wh r =
     (wh r \<and> (lr_owner_id r = Some uid \<or> is_admin db uid))"
  by (auto simp: update_target_def using_passes_def land_records_policies_def applies_to_def)

lemma land_new_row_passes:
  "new_row_passes land_records_policies db uid r = (lr_owner_id r = Some uid \<or> is_admin db uid)"
  by (auto simp: new_row_passes_def check_passes_def using_passes_def land_records_policies_def
      applies_to_def)

lemma land_insert_check:
  "check_passes land_records_policies For_Insert db uid r
     = (lr_owner_id r = Some uid \<or> is_admin db uid)"
  by (auto simp: check_passes_def land_records_policies_def applies_to_def)

lemma notifications_using:
  "using_passes notifications_policies For_Select db uid r = (n_user_id r = Some uid)"
  "using_passes notifications_policies For_Update db uid r = (n_user_id r = Some uid)"
  "check_passes notifications_policies For_Update db uid r = (n_user_id r = Some uid)"
  "check_passes notifications_policies For_Insert db uid r = True"
  "using_passes notifications_policies For_Delete db uid r = False"
  by (auto simp: using_passes_def check_passes_def notifications_policies_def applies_to_def)

text \<open>An update none of whose new rows is refused rewrites exactly the rows it hits.\<close>

lemma update_rows_all_ok:
  "(\<And>r. r \<in> set rows \<Longrightarrow> tgt r \<Longrightarrow> ok (f r) \<and> cs (f r) = None)
   \<Longrightarrow> update_rows tgt ok cs f rows = Inr (map (\<lambda>r. if tgt r then f r else r) rows)"
  by (induction rows) auto

lemmas sample_defs = registry_def registry_with_deed_def admin_profile_def owner_profile_def
  other_profile_def plot_a_def deed_a_def note_owner_def note_other_def

section \<open>Submitting an ownership document\<close>

text \<open>
  C1. For every authenticated caller inserting a row into \<^verbatim>\<open>ownership_documents\<close>:
  row-level security rejects the insert exactly when the caller is neither an admin nor
  both the row's \<^verbatim>\<open>submitted_by\<close> and the owner of the land record that
  \<^verbatim>\<open>land_record_id\<close> names; and a row that the table itself admits (its checks, its
  key, its references) is accepted if and only if the caller is an admin, or
  \<^verbatim>\<open>submitted_by\<close> is the caller and the referenced land record is owned by the
  caller. In particular a non-admin submitting a document for a land record they do
  not own is rejected.
\<close>

theorem insert_ownership_document_accepted_iff:
  "(insert_ownership_document db uid r = Inl RlsViolation)
     = (\<not> ((\<exists>p \<in> set (profiles db). p_id p = uid \<and> p_role p = ''admin'')
           \<or> (d_submitted_by r = Some uid
               \<and> (\<exists>lr \<in> set (land_records db).
                     Some (lr_id lr) = d_land_record_id r \<and> lr_owner_id lr = Some uid))))
   \<and> (document_row_ok db r \<longrightarrow>
        (\<exists>db'. insert_ownership_document db uid r = Inr db')
          = ((\<exists>p \<in> set (profiles db). p_id p = uid \<and> p_role p = ''admin'')
             \<or> (d_submitted_by r = Some uid
                 \<and> (\<exists>lr \<in> set (land_records db).
                       Some (lr_id lr) = d_land_record_id r \<and> lr_owner_id lr = Some uid))))"
  unfolding insert_ownership_document_def rls_insert_def document_row_ok_def
    documents_insert_check is_admin_iff owns_land_iff
  by (auto simp: ownership_documents_checks_def split: option.splits if_splits)

lemma registry_row_ok: "document_row_ok registry deed_a"
  by (simp add: document_row_ok_def ownership_documents_checks_def ownership_documents_fks_def
      fk_ok_def sample_defs)

text \<open>
  The owner of Plot A files its deed and is accepted; another landowner filing the same
  row is rejected by row-level security.
\<close>

theorem insert_ownership_document_witness:
  "document_row_ok registry deed_a
   \<and> (\<exists>db'. insert_ownership_document registry ''u1'' deed_a = Inr db')
   \<and> insert_ownership_document registry ''u2'' deed_a = Inl RlsViolation"
  using insert_ownership_document_accepted_iff [of registry "''u1''" deed_a]
    insert_ownership_document_accepted_iff [of registry "''u2''" deed_a]
    registry_row_ok
  by (simp add: sample_defs)

text \<open>
  In the client: the owner of Plot A submits its deed and the row is stored; another
  landowner submitting for Plot A is shown the platform's refusal, and nothing is stored.
\<close>

lemma owner_submits_deed:
  "handleSubmitDocument (Some owner_profile) deed_form registry ''u1'' ''d1'' 20 None
     = (registry_with_deed,
        [Alert ''Success'' (Text ''Document submitted for review''),
         DataAccess LandownerDocuments_fetchDocuments])"
  by (simp add: handleSubmitDocument_def request_def insert_ownership_document_def
      rls_insert_def documents_insert_check is_admin_iff owns_land_iff
      ownership_documents_checks_def ownership_documents_fks_def fk_ok_def
      submitted_document_row_def deed_form_def sample_defs)

lemma stranger_submits_deed:
  "handleSubmitDocument (Some other_profile) deed_form registry ''u2'' ''d1'' 20 None
     = (registry,
        [ConsoleError,
         Alert ''Error'' (ErrorMessageOr RlsViolation ''Failed to submit document'')])"
  by (simp add: handleSubmitDocument_def request_def insert_ownership_document_def
      rls_insert_def documents_insert_check is_admin_iff owns_land_iff
      submitted_document_row_def deed_form_def sample_defs)

section \<open>Reviewing a document\<close>

lemma update_document_status_frame:
  "update_document_status prof db uid documentId action notes fault = Inr db1
   \<Longrightarrow> notifications db1 = notifications db \<and> profiles db1 = profiles db
       \<and> land_records db1 = land_records db"
  by (auto simp: update_document_status_def split: sum.splits)

lemma insert_notification_accepted:
  "n_type n \<in> set [''info'', ''warning'', ''success'', ''error'']
   \<Longrightarrow> n_id n \<notin> set (map n_id (notifications db))
   \<Longrightarrow> fk_ok (map p_id (profiles db)) (n_user_id n)
   \<Longrightarrow> insert_notification db uid n None = Inr (db\<lparr>notifications := notifications db @ [n]\<rparr>)"
  by (simp add: insert_notification_def request_def rls_insert_def notifications_using
      notifications_checks_def notifications_fks_def)

text \<open>
  C2. For a document of the admin's review list, found there by its id, the action
  that sets its status to approved or rejected (the update went through) inserts
  exactly one notification: the table of notifications is the one before with one row
  appended, provided the database takes the row (its key is new and the submitter is a
  profile or NULL; row-level security never refuses it). The row's \<^verbatim>\<open>user_id\<close> is
  the document's \<^verbatim>\<open>submitted_by\<close>; its type is \<^verbatim>\<open>success\<close> for approved and
  \<^verbatim>\<open>warning\<close> for rejected; its message names the title of the land record embedded
  in the document.
\<close>

theorem handleDocumentAction_notifies_submitter:
  assumes "find (\<lambda>doc. d_id doc = documentId) documents = Some document"
    and "update_document_status prof db uid documentId action notes fault1 = Inr db1"
    and "fresh \<notin> set (map n_id (notifications db))"
    and "fk_ok (map p_id (profiles db)) (d_submitted_by document)"
  shows "fst (handleDocumentAction prof documents db uid documentId action notes fresh now
                fault1 None)
           = db1\<lparr>notifications :=
                  notifications db @ [document_notification fresh now document action]\<rparr>
         \<and> n_user_id (document_notification fresh now document action) = d_submitted_by document
         \<and> n_type (document_notification fresh now document action)
             = (case action of Approved \<Rightarrow> ''success'' | Rejected \<Rightarrow> ''warning'')
         \<and> n_message (document_notification fresh now document action)
             = ''Your '' @ d_document_type document @ '' document for ''
               @ (case dv_land_records document of None \<Rightarrow> ''undefined'' | Some l \<Rightarrow> ref_title l)
               @ '' has been '' @ action_text action @ ''.''"
proof -
  let ?n = "document_notification fresh now document action"
  have fr: "notifications db1 = notifications db" "profiles db1 = profiles db"
    using update_document_status_frame [OF assms(2)] by simp_all
  have ty: "n_type ?n \<in> set [''info'', ''warning'', ''success'', ''error'']"
    by (cases action) (simp_all add: document_notification_def)
  have "insert_notification db1 uid ?n None = Inr (db1\<lparr>notifications := notifications db1 @ [?n]\<rparr>)"
    using assms(3,4) ty fr
    by (intro insert_notification_accepted) (simp_all add: document_notification_def)
  then have "fst (handleDocumentAction prof documents db uid documentId action notes fresh now
                fault1 None) = db1\<lparr>notifications := notifications db @ [?n]\<rparr>"
    using assms(1,2) fr by (simp add: handleDocumentAction_def Let_def)
  moreover have "n_type ?n = (case action of Approved \<Rightarrow> ''success'' | Rejected \<Rightarrow> ''warning'')"
    by (cases action) (simp_all add: document_notification_def)
  ultimately show ?thesis
    by (simp add: document_notification_def)
qed

lemma approve_deed:
  "update_document_status (Some admin_profile) registry_with_deed ''a1'' ''d1'' Approved None None
     = Inr (registry_with_deed\<lparr>ownership_documents :=
              [deed_a\<lparr>d_status := ''approved'', d_reviewed_by := Some ''a1''\<rparr>]\<rparr>)"
  by (simp add: update_document_status_def request_def rls_update_def documents_update_target
      documents_new_row_passes is_admin_iff review_constraints_def review_document_def
      notes_or_null_def fk_ok_def sample_defs)

text \<open>
  The scenario of the specification: the admin approves the pending deed for Plot A
  submitted by \<^verbatim>\<open>u1\<close>, who receives one notification of type \<^verbatim>\<open>success\<close> that
  names Plot A.
\<close>

theorem handleDocumentAction_witness:
  "fst (handleDocumentAction (Some admin_profile) [deed_a_view] registry_with_deed ''a1'' ''d1''
          Approved None ''n3'' 40 None None)
     = registry_with_deed
         \<lparr>ownership_documents := [deed_a\<lparr>d_status := ''approved'', d_reviewed_by := Some ''a1''\<rparr>],
          notifications := [note_owner, note_other,
            \<lparr>n_id = ''n3'', n_user_id = Some ''u1'', n_title = ''Document approved'',
             n_message = ''Your deed document for Plot A has been approved.'',
             n_type = ''success'', n_read = Some False, n_created_at = 40\<rparr>]\<rparr>"
  using handleDocumentAction_notifies_submitter
     [of "''d1''" "[deed_a_view]" deed_a_view "Some admin_profile" registry_with_deed "''a1''"
         Approved None None _ "''n3''" 40, OF _ approve_deed]
  by (simp add: deed_a_view_def ownership_document.extend_def document_notification_def
        fk_ok_def sample_defs)

section \<open>Who can change the status of a land record\<close>

text \<open>
  C3 as stated (only an admin's update can change \<^verbatim>\<open>ownership_status\<close>) fails: the
  landowner \<^verbatim>\<open>u1\<close>, who is no admin, updates the status of their own pending Plot A
  to \<^verbatim>\<open>verified\<close>, and the database applies the update.
\<close>

theorem owner_transitions_status:
  "update_ownership_status registry ''u1'' ''l1'' ''verified''
     = Inr (registry\<lparr>land_records := [plot_a\<lparr>lr_ownership_status := ''verified''\<rparr>]\<rparr>)
   \<and> \<not> is_admin registry ''u1''
   \<and> lr_ownership_status plot_a = ''pending''"
  by (simp add: update_ownership_status_def rls_update_def land_update_target land_new_row_passes
      is_admin_iff status_constraint_def set_ownership_status_def land_id_is_def sample_defs)

text \<open>
  C3, amended. For every existing land record and every authenticated caller,
  row-level security lets an update reach the record exactly when the caller is an admin
  or the record's \<^verbatim>\<open>owner_id\<close> is the caller, and admits the updated row exactly when
  the caller is an admin or the updated row's \<^verbatim>\<open>owner_id\<close> is the caller, whichever
  columns the update assigns; an assignment of \<^verbatim>\<open>ownership_status\<close> is admitted on
  the same condition. So the record's owner, like an admin, can change
  \<^verbatim>\<open>ownership_status\<close>.
\<close>

theorem land_record_update_permission:
  "update_target land_records_policies db uid wh r
     = (wh r \<and> ((\<exists>p \<in> set (profiles db). p_id p = uid \<and> p_role p = ''admin'')
                 \<or> lr_owner_id r = Some uid))
   \<and> new_row_passes land_records_policies db uid r'
     = ((\<exists>p \<in> set (profiles db). p_id p = uid \<and> p_role p = ''admin'')
        \<or> lr_owner_id r' = Some uid)
   \<and> new_row_passes land_records_policies db uid (set_ownership_status s r)
     = ((\<exists>p \<in> set (profiles db). p_id p = uid \<and> p_role p = ''admin'')
        \<or> lr_owner_id r = Some uid)"
  by (auto simp: land_update_target land_new_row_passes is_admin_iff set_ownership_status_def)

text \<open>
  A caller who is neither an admin nor the owner of any row changes no land record,
  whatever the update; and the admin's \<^verbatim>\<open>handleVerifyLand\<close> does set the status.
\<close>

lemma update_rows_no_target:
  "(\<And>r. r \<in> set rows \<Longrightarrow> \<not> tgt r) \<Longrightarrow> update_rows tgt ok cs f rows = Inr rows"
  by (induction rows) auto

lemma stranger_updates_nothing:
  "\<not> is_admin db uid \<Longrightarrow> (\<And>r. r \<in> set rows \<Longrightarrow> lr_owner_id r \<noteq> Some uid)
   \<Longrightarrow> rls_update land_records_policies cs db uid wh f rows = Inr rows"
  unfolding rls_update_def
  by (rule update_rows_no_target) (simp add: land_update_target)

lemma admin_verifies_plot_a:
  "handleVerifyLand (Some admin_profile) registry ''a1'' ''l1'' Verified 60 None
     = (registry\<lparr>land_records :=
          [plot_a\<lparr>lr_ownership_status := ''verified'', lr_verified_by := Some ''a1'',
                  lr_updated_at := 60\<rparr>]\<rparr>,
        [Alert ''Success'' (Text ''Land record verified successfully''),
         DataAccess AdminLands_fetchLands])"
  by (simp add: handleVerifyLand_def request_def rls_update_def land_update_target
      land_new_row_passes is_admin_iff verify_constraints_def verify_land_def land_id_is_def
      fk_ok_def sample_defs)

section \<open>The status of a new land record\<close>

text \<open>When the database takes a new land record, and what it then holds.\<close>

lemma insert_land_record_accepted:
  "fault = None \<Longrightarrow> lr_owner_id r = Some uid \<or> is_admin db uid
   \<Longrightarrow> land_records_checks r = None \<Longrightarrow> lr_id r \<notin> set (map lr_id (land_records db))
   \<Longrightarrow> land_records_fks db r
   \<Longrightarrow> insert_land_record db uid r fault = Inr (db\<lparr>land_records := land_records db @ [r]\<rparr>)"
  by (simp add: insert_land_record_def request_def rls_insert_def land_insert_check)

lemma insert_land_record_refused:
  "\<not> (fault = None \<and> (lr_owner_id r = Some uid \<or> is_admin db uid)
       \<and> land_records_checks r = None \<and> lr_id r \<notin> set (map lr_id (land_records db))
       \<and> land_records_fks db r)
   \<Longrightarrow> \<exists>e. insert_land_record db uid r fault = Inl e"
  by (auto simp: insert_land_record_def request_def rls_insert_def land_insert_check
      split: option.splits)

lemma handler_result:
  "fst (if incomplete then (db, effs)
        else case insert_land_record db uid r fault of
               Inl e \<Rightarrow> (db, on_error e)
             | Inr db' \<Rightarrow> (db', on_success))
     = (if \<not> incomplete \<and> fault = None \<and> (lr_owner_id r = Some uid \<or> is_admin db uid)
           \<and> land_records_checks r = None \<and> lr_id r \<notin> set (map lr_id (land_records db))
           \<and> land_records_fks db r
        then db\<lparr>land_records := land_records db @ [r]\<rparr> else db)"
proof (cases "fault = None \<and> (lr_owner_id r = Some uid \<or> is_admin db uid)
       \<and> land_records_checks r = None \<and> lr_id r \<notin> set (map lr_id (land_records db))
       \<and> land_records_fks db r")
  case True
  then have "insert_land_record db uid r fault = Inr (db\<lparr>land_records := land_records db @ [r]\<rparr>)"
    by (intro insert_land_record_accepted) simp_all
  with True show ?thesis by simp
next
  case False
  then obtain e where "insert_land_record db uid r fault = Inl e"
    using insert_land_record_refused [of fault r uid db] by blast
  with False show ?thesis by auto
qed

text \<open>
  C4. The landowner dashboard's add operation inserts a land record exactly when the
  form is complete, the request reaches the database, and the database takes the row
  (the row's owner is the caller or the caller is an admin, the row passes the table's
  checks, its key is new, its references exist); the database then holds that one row
  more, and otherwise is unchanged. The row has \<^verbatim>\<open>ownership_status = 'pending'\<close>
  and the \<^verbatim>\<open>owner_id\<close> of the landowner's profile. Likewise the admin screen's add
  operation, whose row has no owner, so that the caller must be an admin: its row has
  \<^verbatim>\<open>ownership_status = 'verified'\<close> and the \<^verbatim>\<open>verified_by\<close> of the admin's
  profile.
\<close>

theorem handleAddLand_status:
  "fst (landowner_handleAddLand pf prof formData db uid fresh now fault)
     = (if \<not> form_incomplete formData \<and> fault = None
           \<and> (lr_owner_id (landowner_land_row pf prof formData fresh now) = Some uid
                \<or> (\<exists>p \<in> set (profiles db). p_id p = uid \<and> p_role p = ''admin''))
           \<and> land_records_checks (landowner_land_row pf prof formData fresh now) = None
           \<and> fresh \<notin> set (map lr_id (land_records db))
           \<and> land_records_fks db (landowner_land_row pf prof formData fresh now)
        then db\<lparr>land_records :=
                  land_records db @ [landowner_land_row pf prof formData fresh now]\<rparr>
        else db)
   \<and> lr_ownership_status (landowner_land_row pf prof formData fresh now) = ''pending''
   \<and> lr_owner_id (landowner_land_row pf (Some p) formData fresh now) = Some (p_id p)
   \<and> fst (admin_handleAddLand pf prof formData db uid fresh now fault)
     = (if \<not> form_incomplete formData \<and> fault = None
           \<and> (\<exists>p \<in> set (profiles db). p_id p = uid \<and> p_role p = ''admin'')
           \<and> land_records_checks (admin_land_row pf prof formData fresh now) = None
           \<and> fresh \<notin> set (map lr_id (land_records db))
           \<and> land_records_fks db (admin_land_row pf prof formData fresh now)
        then db\<lparr>land_records :=
                  land_records db @ [admin_land_row pf prof formData fresh now]\<rparr>
        else db)
   \<and> lr_ownership_status (admin_land_row pf prof formData fresh now) = ''verified''
   \<and> lr_verified_by (admin_land_row pf (Some p) formData fresh now) = Some (p_id p)"
proof -
  have id: "lr_id (landowner_land_row pf prof formData fresh now) = fresh"
    "lr_id (admin_land_row pf prof formData fresh now) = fresh"
    "lr_owner_id (admin_land_row pf prof formData fresh now) = None"
    by (simp_all add: landowner_land_row_def admin_land_row_def)
  have a: "fst (landowner_handleAddLand pf prof formData db uid fresh now fault)
     = (if \<not> form_incomplete formData \<and> fault = None
           \<and> (lr_owner_id (landowner_land_row pf prof formData fresh now) = Some uid
                \<or> (\<exists>p \<in> set (profiles db). p_id p = uid \<and> p_role p = ''admin''))
           \<and> land_records_checks (landowner_land_row pf prof formData fresh now) = None
           \<and> fresh \<notin> set (map lr_id (land_records db))
           \<and> land_records_fks db (landowner_land_row pf prof formData fresh now)
        then db\<lparr>land_records :=
                  land_records db @ [landowner_land_row pf prof formData fresh now]\<rparr>
        else db)"
    unfolding landowner_handleAddLand_def handler_result is_admin_iff id by simp
  have b: "fst (admin_handleAddLand pf prof formData db uid fresh now fault)
     = (if \<not> form_incomplete formData \<and> fault = None
           \<and> (\<exists>p \<in> set (profiles db). p_id p = uid \<and> p_role p = ''admin'')
           \<and> land_records_checks (admin_land_row pf prof formData fresh now) = None
           \<and> fresh \<notin> set (map lr_id (land_records db))
           \<and> land_records_fks db (admin_land_row pf prof formData fresh now)
        then db\<lparr>land_records :=
                  land_records db @ [admin_land_row pf prof formData fresh now]\<rparr>
        else db)"
    unfolding admin_handleAddLand_def handler_result is_admin_iff id by simp
  have c: "lr_ownership_status (landowner_land_row pf prof formData fresh now) = ''pending''"
    "lr_owner_id (landowner_land_row pf (Some p) formData fresh now) = Some (p_id p)"
    "lr_ownership_status (admin_land_row pf prof formData fresh now) = ''verified''"
    "lr_verified_by (admin_land_row pf (Some p) formData fresh now) = Some (p_id p)"
    by (simp_all add: landowner_land_row_def admin_land_row_def)
  show ?thesis using a b c by (intro conjI)
qed

lemma sample_rows_ok:
  "\<not> form_incomplete sample_form"
  "land_records_checks (landowner_land_row sample_parse (Some owner_profile) sample_form ''l4'' 50)
     = None"
  "land_records_checks (admin_land_row sample_parse (Some admin_profile) sample_form ''l4'' 50)
     = None"
  "land_records_fks registry
     (landowner_land_row sample_parse (Some owner_profile) sample_form ''l4'' 50)"
  "land_records_fks registry
     (admin_land_row sample_parse (Some admin_profile) sample_form ''l4'' 50)"
  by (simp_all add: form_incomplete_def land_records_checks_def land_records_fks_def fk_ok_def
      landowner_land_row_def admin_land_row_def sample_form_def sample_parse_def sample_defs)

text \<open>
  Both operations do insert: the landowner's Plot D is stored pending and theirs, the
  admin's is stored verified by the admin; the landowner using the admin's operation
  stores nothing.
\<close>

theorem handleAddLand_status_witness:
  "land_records (fst (landowner_handleAddLand sample_parse (Some owner_profile) sample_form
                        registry ''u1'' ''l4'' 50 None))
     = [plot_a, landowner_land_row sample_parse (Some owner_profile) sample_form ''l4'' 50]
   \<and> lr_ownership_status
        (landowner_land_row sample_parse (Some owner_profile) sample_form ''l4'' 50) = ''pending''
   \<and> lr_owner_id
        (landowner_land_row sample_parse (Some owner_profile) sample_form ''l4'' 50) = Some ''u1''
   \<and> land_records (fst (admin_handleAddLand sample_parse (Some admin_profile) sample_form
                        registry ''a1'' ''l4'' 50 None))
     = [plot_a, admin_land_row sample_parse (Some admin_profile) sample_form ''l4'' 50]
   \<and> lr_ownership_status
        (admin_land_row sample_parse (Some admin_profile) sample_form ''l4'' 50) = ''verified''
   \<and> lr_verified_by
        (admin_land_row sample_parse (Some admin_profile) sample_form ''l4'' 50) = Some ''a1''
   \<and> fst (admin_handleAddLand sample_parse (Some owner_profile) sample_form
              registry ''u1'' ''l4'' 50 None) = registry"
  using handleAddLand_status [of sample_parse "Some owner_profile" sample_form registry "''u1''"
      "''l4''" 50 None owner_profile]
    handleAddLand_status [of sample_parse "Some admin_profile" sample_form registry "''a1''"
      "''l4''" 50 None admin_profile]
    sample_rows_ok
  by (simp add: landowner_land_row_def sample_defs)

section \<open>Routing\<close>

text \<open>
  C5. The routing decision of the index screen is a function of (loading, session,
  profile): while loading is true no redirect occurs; once loading is false, an absent
  session or profile routes to the authentication screen; otherwise the roles
  \<^verbatim>\<open>admin\<close>, \<^verbatim>\<open>landowner\<close> and \<^verbatim>\<open>public\<close> route to their own screen set, exactly
  then, and any other role routes to the authentication screen.
\<close>

theorem routing_decision_spec:
  "routing_decision True session prof = None
   \<and> routing_decision False None prof = Some Auth
   \<and> routing_decision False session None = Some Auth
   \<and> (routing_decision False (Some s) (Some p) = Some Admin) = (p_role p = ''admin'')
   \<and> (routing_decision False (Some s) (Some p) = Some Landowner) = (p_role p = ''landowner'')
   \<and> (routing_decision False (Some s) (Some p) = Some Public) = (p_role p = ''public'')
   \<and> (routing_decision False (Some s) (Some p) = Some Auth)
        = (p_role p \<noteq> ''admin'' \<and> p_role p \<noteq> ''landowner'' \<and> p_role p \<noteq> ''public'')"
  by (simp add: routing_decision_def Let_def)

section \<open>Marking all notifications as read\<close>

lemma mark_read_update:
  "rls_update notifications_policies (\<lambda>db r. None) db uid wh mark_read rows
     = Inr (map (\<lambda>r. if wh r \<and> n_user_id r = Some uid then mark_read r else r) rows)"
proof -
  have "update_rows (update_target notifications_policies db uid wh)
          (new_row_passes notifications_policies db uid) (\<lambda>r. None) mark_read rows
        = Inr (map (\<lambda>r. if update_target notifications_policies db uid wh r
                         then mark_read r else r) rows)"
    by (rule update_rows_all_ok)
       (simp add: update_target_def new_row_passes_def notifications_using mark_read_def)
  then show ?thesis
    by (simp add: rls_update_def update_target_def notifications_using)
qed

lemma markAllAsRead_db:
  "fst (markAllAsRead notifs db uid None)
     = db\<lparr>notifications :=
          map (\<lambda>r. if n_user_id r = Some uid \<and> n_id r \<in> set (map n_id (filter unread notifs))
                   then r\<lparr>n_read := Some True\<rparr> else r)
            (notifications db)\<rparr>"
proof (cases "filter unread notifs = []")
  case True
  then have "map (\<lambda>r. if n_user_id r = Some uid \<and> n_id r \<in> set (map n_id (filter unread notifs))
                   then r\<lparr>n_read := Some True\<rparr> else r) (notifications db) = notifications db"
    by simp
  with True show ?thesis by (simp add: markAllAsRead_def Let_def)
next
  case False
  then show ?thesis
    by (auto simp: markAllAsRead_def Let_def request_def mark_read_update mark_read_def
        intro!: arg_cong [where f = "\<lambda>x. db\<lparr>notifications := x\<rparr>"])
qed

lemma markAllAsRead_fault:
  "fst (markAllAsRead notifs db uid (Some e)) = db"
  by (simp add: markAllAsRead_def Let_def request_def)

text \<open>
  C6. For every user, every state of the notifications table and every list on the
  user's screen, mark-all-as-read, once its request reaches the database, sets
  \<^verbatim>\<open>read = true\<close> on every row of that user whose id is unread in the screen's list
  and leaves every other row, those of other users among them, and every other field
  as they were; a request that fails leaves the database as it was.
\<close>

theorem markAllAsRead_effect:
  "fst (markAllAsRead notifs db uid None)
     = db\<lparr>notifications :=
          map (\<lambda>r. if n_user_id r = Some uid \<and> n_id r \<in> set (map n_id (filter unread notifs))
                   then r\<lparr>n_read := Some True\<rparr> else r)
            (notifications db)\<rparr>
   \<and> (fst (markAllAsRead notifs db uid fault) = db
      \<or> fst (markAllAsRead notifs db uid fault) = fst (markAllAsRead notifs db uid None))"
  using markAllAsRead_db [of notifs db uid] markAllAsRead_fault [of notifs db uid]
  by (cases fault) simp_all

text \<open>
  With the list the screen fetched for the user, and the table as it was then: every
  row of the user is read afterwards, and no row of another user has changed.
\<close>

lemma fetched_notifications:
  "set (fst (fetchNotifications tie prof old db uid None))
     = {n \<in> set (notifications db). n_user_id n = Some uid \<and> n_user_id n = Some (p_id prof)}"
  by (auto simp: fetchNotifications_def request_def rls_select_def notifications_using
      order_desc_def)

lemma markAllAsRead_after_fetch:
  assumes "p_id prof = uid"
  shows "notifications (fst (markAllAsRead (fst (fetchNotifications tie prof old db uid None))
                               db uid None))
           = map (\<lambda>r. if n_user_id r = Some uid then r\<lparr>n_read := Some True\<rparr> else r)
               (notifications db)"
proof -
  let ?notifs = "fst (fetchNotifications tie prof old db uid None)"
  have "(if n_user_id r = Some uid \<and> n_id r \<in> set (map n_id (filter unread ?notifs))
         then r\<lparr>n_read := Some True\<rparr> else r)
        = (if n_user_id r = Some uid then r\<lparr>n_read := Some True\<rparr> else r)"
    if "r \<in> set (notifications db)" for r
  proof (cases "n_user_id r = Some uid \<and> unread r")
    case True
    then have "r \<in> set (filter unread ?notifs)"
      using that assms by (simp add: fetched_notifications)
    then show ?thesis using True by force
  next
    case False
    then show ?thesis by (auto simp: unread_def)
  qed
  then show ?thesis
    using markAllAsRead_db [of ?notifs db uid] by (simp cong: map_cong)
qed

text \<open>The owner marks all as read: their row is read, the other user's row is untouched.\<close>

lemma owner_marks_all_read:
  "notifications (fst (markAllAsRead [note_owner] registry ''u1'' None))
     = [note_owner\<lparr>n_read := Some True\<rparr>, note_other]"
  by (simp add: markAllAsRead_def Let_def request_def mark_read_update mark_read_def unread_def
      sample_defs)

section \<open>Searching verified land\<close>

lemma str_includes_Nil [simp]: "str_includes t []"
  by (induction t) auto

lemma set_order_desc [simp]: "set (order_desc tie key rows) = set rows"
  by (simp add: order_desc_def)

lemma embed_owner_status [simp]:
  "lr_ownership_status (embed_owner read_number db uid l) = lr_ownership_status l"
  by (simp add: embed_owner_def land_record.extend_def)

lemma filter_if: "(if c then filter P xs else xs) = filter (\<lambda>x. c \<longrightarrow> P x) xs"
  by simp

text \<open>The six steps of \<^verbatim>\<open>applyFilters\<close> are one filter by the conjunction of the tests.\<close>

lemma applyFilters_eq:
  "applyFilters pf lc lands searchQuery flt =
     filter (\<lambda>land.
        (searchQuery \<noteq> [] \<longrightarrow> matches_search lc searchQuery land)
        \<and> (minPrice flt \<noteq> [] \<longrightarrow> price_at_least (lr_price land) (pf (minPrice flt)))
        \<and> (maxPrice flt \<noteq> [] \<longrightarrow> price_at_most (lr_price land) (pf (maxPrice flt)))
        \<and> (minSize flt \<noteq> [] \<longrightarrow> js_ge (lr_size land) (pf (minSize flt)))
        \<and> (maxSize flt \<noteq> [] \<longrightarrow> js_le (lr_size land) (pf (maxSize flt)))
        \<and> (zoning flt \<noteq> [] \<longrightarrow>
              str_includes (lc (lr_zoning land)) (lc (zoning flt)))) lands"
  unfolding applyFilters_def Let_def filter_if filter_filter
  by (rule filter_cong [OF refl]) blast

text \<open>
  C7. The public search screen fetches only land records whose
  \<^verbatim>\<open>ownership_status\<close> is \<^verbatim>\<open>verified\<close>. For every fetched list and every setting of
  the search text and the filters, whatever \<^verbatim>\<open>parseFloat\<close> and \<^verbatim>\<open>toLowerCase\<close>
  compute, \<^verbatim>\<open>applyFilters\<close> returns exactly the records of the fetched list, in
  their order, that pass every test that is set; so it returns records of the fetched
  list only, each of which matches a search text that is given in its title, location
  or zoning, lies within each price and size bound that is given, and matches a zoning
  filter that is given; where \<^verbatim>\<open>toLowerCase\<close> maps the empty text to itself, each
  matches the search text and the zoning filter also when these are empty. With an
  empty search text and empty filters it returns the whole fetched list.
\<close>

theorem public_search_filters:
  "(\<forall>land \<in> set (fst (fetchLands tie read_number shown db uid None)).
       lr_ownership_status land = ''verified'')
   \<and> applyFilters pf lc lands searchQuery flt =
       filter (\<lambda>land.
          (searchQuery \<noteq> [] \<longrightarrow> matches_search lc searchQuery land)
          \<and> (minPrice flt \<noteq> [] \<longrightarrow> price_at_least (lr_price land) (pf (minPrice flt)))
          \<and> (maxPrice flt \<noteq> [] \<longrightarrow> price_at_most (lr_price land) (pf (maxPrice flt)))
          \<and> (minSize flt \<noteq> [] \<longrightarrow> js_ge (lr_size land) (pf (minSize flt)))
          \<and> (maxSize flt \<noteq> [] \<longrightarrow> js_le (lr_size land) (pf (maxSize flt)))
          \<and> (zoning flt \<noteq> [] \<longrightarrow>
                str_includes (lc (lr_zoning land)) (lc (zoning flt)))) lands
   \<and> set (applyFilters pf lc lands searchQuery flt) \<subseteq> set lands
   \<and> (\<forall>land \<in> set (applyFilters pf lc lands searchQuery flt).
         (searchQuery \<noteq> [] \<longrightarrow>
            str_includes (lc (lr_title land)) (lc searchQuery)
            \<or> str_includes (lc (lr_location land)) (lc searchQuery)
            \<or> str_includes (lc (lr_zoning land)) (lc searchQuery))
         \<and> (minPrice flt \<noteq> [] \<longrightarrow> price_at_least (lr_price land) (pf (minPrice flt)))
         \<and> (maxPrice flt \<noteq> [] \<longrightarrow> price_at_most (lr_price land) (pf (maxPrice flt)))
         \<and> (minSize flt \<noteq> [] \<longrightarrow> js_ge (lr_size land) (pf (minSize flt)))
         \<and> (maxSize flt \<noteq> [] \<longrightarrow> js_le (lr_size land) (pf (maxSize flt)))
         \<and> (zoning flt \<noteq> [] \<longrightarrow> str_includes (lc (lr_zoning land)) (lc (zoning flt)))
         \<and> (lc [] = [] \<longrightarrow>
               (str_includes (lc (lr_title land)) (lc searchQuery)
                \<or> str_includes (lc (lr_location land)) (lc searchQuery)
                \<or> str_includes (lc (lr_zoning land)) (lc searchQuery))
               \<and> str_includes (lc (lr_zoning land)) (lc (zoning flt))))
   \<and> applyFilters pf lc lands []
        \<lparr>minPrice = [], maxPrice = [], minSize = [], maxSize = [], zoning = [], status = st\<rparr>
       = lands"
proof -
  have a: "\<forall>land \<in> set (fst (fetchLands tie read_number shown db uid None)).
       lr_ownership_status land = ''verified''"
    by (auto simp: fetchLands_def request_def land_select_all)
  have b: "set (applyFilters pf lc lands searchQuery flt) \<subseteq> set lands"
    by (auto simp: applyFilters_eq)
  have c: "\<forall>land \<in> set (applyFilters pf lc lands searchQuery flt).
         (searchQuery \<noteq> [] \<longrightarrow>
            str_includes (lc (lr_title land)) (lc searchQuery)
            \<or> str_includes (lc (lr_location land)) (lc searchQuery)
            \<or> str_includes (lc (lr_zoning land)) (lc searchQuery))
         \<and> (minPrice flt \<noteq> [] \<longrightarrow> price_at_least (lr_price land) (pf (minPrice flt)))
         \<and> (maxPrice flt \<noteq> [] \<longrightarrow> price_at_most (lr_price land) (pf (maxPrice flt)))
         \<and> (minSize flt \<noteq> [] \<longrightarrow> js_ge (lr_size land) (pf (minSize flt)))
         \<and> (maxSize flt \<noteq> [] \<longrightarrow> js_le (lr_size land) (pf (maxSize flt)))
         \<and> (zoning flt \<noteq> [] \<longrightarrow> str_includes (lc (lr_zoning land)) (lc (zoning flt)))
         \<and> (lc [] = [] \<longrightarrow>
               (str_includes (lc (lr_title land)) (lc searchQuery)
                \<or> str_includes (lc (lr_location land)) (lc searchQuery)
                \<or> str_includes (lc (lr_zoning land)) (lc searchQuery))
               \<and> str_includes (lc (lr_zoning land)) (lc (zoning flt)))"
    by (cases "searchQuery = []"; cases "zoning flt = []")
       (auto simp: applyFilters_eq matches_search_def)
  have d: "applyFilters pf lc lands []
        \<lparr>minPrice = [], maxPrice = [], minSize = [], maxSize = [], zoning = [], status = st\<rparr>
       = lands"
    by (simp add: applyFilters_eq)
  show ?thesis using a applyFilters_eq [of pf lc lands searchQuery flt] b c d by (intro conjI)
qed

lemma fetch_market:
  "fst (fetchLands no_tie as_stored [] market ''u1'' None) = [farm_c_view, plot_b_view]"
  by (simp add: fetchLands_def request_def land_select_all profiles_select_all order_desc_def
      embed_owner_def market_def registry_def plot_a_def plot_b_def farm_c_def
      plot_b_view_def farm_c_view_def admin_profile_def owner_profile_def other_profile_def
      as_stored_def no_tie_def)

lemma lower_examples:
  "ascii_lower ''Lagos'' = ''lagos''" "ascii_lower ''lagos'' = ''lagos''"
  "ascii_lower ''Commercial'' = ''commercial''" "ascii_lower ''COMM'' = ''comm''"
  "ascii_lower ''Plot B'' = ''plot b''" "ascii_lower ''Farm C'' = ''farm c''"
  "ascii_lower ''Kano'' = ''kano''" "ascii_lower ''Agricultural'' = ''agricultural''"
  by code_simp+

lemma filter_market:
  "applyFilters sample_parse ascii_lower [farm_c_view, plot_b_view] ''lagos'' price_filter
     = [plot_b_view]"
  by (simp add: applyFilters_eq matches_search_def price_at_least_def js_ge_def
      sample_parse_def price_filter_def plot_b_view_def farm_c_view_def plot_b_def farm_c_def
      land_record.extend_def lower_examples)

text \<open>
  Of the three parcels of the market the pending one is not fetched; a search for
  \<^verbatim>\<open>lagos\<close> at 4000 or more in a \<^verbatim>\<open>COMM\<close> zone keeps Plot B only.
\<close>

theorem public_search_filters_witness:
  "fst (fetchLands no_tie as_stored [] market ''u1'' None) = [farm_c_view, plot_b_view]
   \<and> lr_ownership_status farm_c_view = ''verified''
   \<and> lr_ownership_status plot_b_view = ''verified''
   \<and> applyFilters sample_parse ascii_lower [farm_c_view, plot_b_view] ''lagos'' price_filter
       = [plot_b_view]
   \<and> str_includes (ascii_lower (lr_location plot_b_view)) (ascii_lower ''lagos'')
   \<and> price_at_least (lr_price plot_b_view) (sample_parse ''4000'')
   \<and> str_includes (ascii_lower (lr_zoning plot_b_view)) (ascii_lower ''COMM'')"
proof -
  note t = public_search_filters [where tie = no_tie and read_number = as_stored
      and shown = "[]" and db = market and uid = "''u1''"
      and pf = sample_parse and lc = ascii_lower and lands = "[farm_c_view, plot_b_view]"
      and searchQuery = "''lagos''" and flt = price_filter and st = "[]"]
  have a: "lr_ownership_status farm_c_view = ''verified''
           \<and> lr_ownership_status plot_b_view = ''verified''"
    using t [THEN conjunct1] unfolding fetch_market by simp
  have c: "price_at_least (lr_price plot_b_view) (sample_parse ''4000'')
           \<and> str_includes (ascii_lower (lr_zoning plot_b_view)) (ascii_lower ''COMM'')"
    using t [THEN conjunct2, THEN conjunct2, THEN conjunct2, THEN conjunct1]
    unfolding filter_market by (simp add: price_filter_def)
  have l: "str_includes (ascii_lower (lr_location plot_b_view)) (ascii_lower ''lagos'')"
    by (simp add: plot_b_view_def plot_b_def land_record.extend_def lower_examples)
  show ?thesis using a c l fetch_market filter_market by (intro conjI) simp_all
qed

section \<open>Failures of data access\<close>

text \<open>
  C8 as stated (every failure is surfaced as exactly one alert) fails: when the
  update of \<^verbatim>\<open>markAsRead\<close> fails, the handler writes to the console and shows no
  alert.
\<close>

theorem markAsRead_failure_not_alerted:
  "markAsRead [note_owner] registry ''u1'' ''n1'' (Some (PlatformError ''503'' ''Service Unavailable''))
     = (registry, [note_owner], [ConsoleError])
   \<and> filter is_alert (snd (snd (markAsRead [note_owner] registry ''u1'' ''n1''
         (Some (PlatformError ''503'' ''Service Unavailable''))))) = []"
  by (simp add: markAsRead_def request_def)

lemmas failure_defs = after_debug_probes_def dashboard_catch_def

lemma no_retry: "DataAccess c \<notin> set (failure_effects c f)"
  by (cases c; cases f) (simp_all add: failure_defs)

lemma at_most_one_alert:
  "c \<in> {Auth_debug_getSession, Auth_debug_select, AdminDashboard_countLands,
          AdminDashboard_countPendingDocuments, AdminDashboard_countUsers,
          AdminDashboard_countPendingTransactions, AdminDashboard_landTypes,
          AdminDashboard_countActiveUsers, AdminDashboard_countVerifiedUsers,
          AdminDocuments_handleDocumentAction_notify,
          PublicSearch_requestOwnershipVerification} \<longrightarrow> (\<exists>e. f = Thrown e)
   \<Longrightarrow> length (filter is_alert (failure_effects c f)) \<le> 1"
  by (cases c; cases f) (simp_all add: failure_defs)

lemma error_alert_iff:
  "c \<in> {Auth_debug_getSession, Auth_debug_select, AdminDashboard_countLands,
          AdminDashboard_countPendingDocuments, AdminDashboard_countUsers,
          AdminDashboard_countPendingTransactions, AdminDashboard_landTypes,
          AdminDashboard_countActiveUsers, AdminDashboard_countVerifiedUsers,
          AdminDocuments_handleDocumentAction_notify,
          PublicSearch_requestOwnershipVerification} \<longrightarrow> (\<exists>e. f = Thrown e)
   \<Longrightarrow> (\<exists>m. filter is_alert (failure_effects c f) = [Alert ''Error'' m])
         = (c \<notin> {Auth_getSession, Auth_fetchProfile, Auth_updateProfile_fetchProfile,
                  Auth_debug_getSession, Auth_debug_select,
                  LandownerDocuments_fetchMyLands, Notifications_markAsRead})"
  by (cases c; cases f) (simp_all add: failure_defs)

lemma nothing_further:
  "c \<in> {Auth_debug_getSession, Auth_debug_select, AdminDashboard_countLands,
          AdminDashboard_countPendingDocuments, AdminDashboard_countUsers,
          AdminDashboard_countPendingTransactions, AdminDashboard_landTypes,
          AdminDashboard_countActiveUsers, AdminDashboard_countVerifiedUsers,
          AdminDocuments_handleDocumentAction_notify,
          PublicSearch_requestOwnershipVerification} \<longrightarrow> (\<exists>e. f = Thrown e)
   \<Longrightarrow> (filter is_data_access (failure_effects c f) = [])
         = (c \<notin> {Auth_debug_getSession, Auth_debug_select})"
  by (cases c; cases f) (simp_all add: failure_defs)

lemma alert_message:
  "filter is_alert (failure_effects c f) = [Alert ''Error'' m]
   \<Longrightarrow> m = Text (fixed_part m) \<or> m = ErrorMessageOr (failure_error f) (fixed_part m)"
  by (cases c; cases f) (auto simp: failure_defs)

lemma alert_message_fixed:
  "filter is_alert (failure_effects c f) = [Alert ''Error'' m]
   \<Longrightarrow> filter is_alert (failure_effects c f') = [Alert ''Error'' m']
   \<Longrightarrow> fixed_part m = fixed_part m'"
  by (cases c; cases f; cases f') (auto simp: failure_defs)

text \<open>
  C8, amended. For every data-access call of the client, a call that has failed is
  not issued again. A failure that the call site detects (an exception, or an error
  reply where the code reads the reply's error) is followed by at most one alert, and
  by no further data access except after the two debug probes, whose \<^verbatim>\<open>catch\<close>
  blocks let the sign-up go on. It is surfaced as exactly one alert, titled Error,
  except where the \<^verbatim>\<open>catch\<close> block only writes to the console: in the provider's
  \<^verbatim>\<open>getSession\<close> and \<^verbatim>\<open>fetchProfile\<close>, the two debug probes, \<^verbatim>\<open>fetchMyLands\<close> of
  the landowner's documents screen and \<^verbatim>\<open>markAsRead\<close>. The alert's message is a
  text of the code, or the platform's \<^verbatim>\<open>error.message\<close> with a text of the code as
  its fallback; the text of the code is the same for every failure of the call site.
\<close>

theorem failure_handling:
  "DataAccess c \<notin> set (failure_effects c f)
   \<and> ((c \<in> {Auth_debug_getSession, Auth_debug_select, AdminDashboard_countLands,
              AdminDashboard_countPendingDocuments, AdminDashboard_countUsers,
              AdminDashboard_countPendingTransactions, AdminDashboard_landTypes,
              AdminDashboard_countActiveUsers, AdminDashboard_countVerifiedUsers,
              AdminDocuments_handleDocumentAction_notify,
              PublicSearch_requestOwnershipVerification} \<longrightarrow> (\<exists>e. f = Thrown e))
       \<longrightarrow> length (filter is_alert (failure_effects c f)) \<le> 1
           \<and> (filter is_data_access (failure_effects c f) = [])
               = (c \<notin> {Auth_debug_getSession, Auth_debug_select})
           \<and> (\<exists>m. filter is_alert (failure_effects c f) = [Alert ''Error'' m])
               = (c \<notin> {Auth_getSession, Auth_fetchProfile, Auth_updateProfile_fetchProfile,
                        Auth_debug_getSession, Auth_debug_select,
                        LandownerDocuments_fetchMyLands, Notifications_markAsRead}))
   \<and> (filter is_alert (failure_effects c f) = [Alert ''Error'' m]
       \<longrightarrow> (m = Text (fixed_part m) \<or> m = ErrorMessageOr (failure_error f) (fixed_part m))
           \<and> (filter is_alert (failure_effects c f') = [Alert ''Error'' m']
                \<longrightarrow> fixed_part m = fixed_part m'))"
  using no_retry [of c f] at_most_one_alert [of c f] nothing_further [of c f]
    error_alert_iff [of c f] alert_message [of c f m] alert_message_fixed [of c f m f' m']
  by blast

text \<open>
  A failed delete shows the screen's fixed text; a failed verification shows the
  platform's message, with the screen's text as its fallback; neither is followed by
  another request.
\<close>

theorem failure_handling_witness:
  "DataAccess Notifications_deleteNotification
     \<notin> set (failure_effects Notifications_deleteNotification
               (ErrorReply (PlatformError ''503'' ''Service Unavailable'')))
   \<and> filter is_data_access (failure_effects Notifications_deleteNotification
       (ErrorReply (PlatformError ''503'' ''Service Unavailable''))) = []
   \<and> filter is_alert (failure_effects Notifications_deleteNotification
       (ErrorReply (PlatformError ''503'' ''Service Unavailable'')))
       = [Alert ''Error'' (Text ''Failed to delete notification'')]
   \<and> filter is_alert (failure_effects AdminLands_handleVerifyLand (ErrorReply RlsViolation))
       = [Alert ''Error'' (ErrorMessageOr RlsViolation ''Failed to update land record'')]
   \<and> fixed_part (ErrorMessageOr RlsViolation ''Failed to update land record'')
       = ''Failed to update land record''"
  using failure_handling [of Notifications_deleteNotification
      "ErrorReply (PlatformError ''503'' ''Service Unavailable'')"
      "Text ''Failed to delete notification''"]
    failure_handling [of AdminLands_handleVerifyLand "ErrorReply RlsViolation"
      "ErrorMessageOr RlsViolation ''Failed to update land record''"]
  by simp

section \<open>The loading flag\<close>

lemma loading_after_step:
  "(\<not> as_loading (auth_step st ev))
     = ((\<exists>sess err. ev = GetSessionResolved sess err \<and> session_user sess = None)
        \<or> ev = GetSessionRejected
        \<or> (\<exists>sess. ev = AuthStateChange sess \<and> session_user sess = None)
        \<or> (\<exists>reply. ev = FetchProfileSettled reply))"
  by (cases ev)
     (auto simp: Let_def fetchProfile_start_def fetchProfile_settle_def split: profile_reply.splits)

text \<open>
  C9 as stated (loading becomes false only when the initial session check resolves
  with no user or a profile fetch settles) fails: with the profile fetch of a signed-in
  user still under way and loading true, an auth state change without a session
  (a sign-out) makes loading false; and so does a rejected initial session check.
\<close>

theorem loading_cleared_without_profile_fetch:
  "as_loading (auth_run [GetSessionResolved (Some owner_session) None])
   \<and> \<not> as_loading (auth_run [GetSessionResolved (Some owner_session) None, AuthStateChange None])
   \<and> as_loading initial_auth_state
   \<and> \<not> as_loading (auth_run [GetSessionRejected])"
  by (simp add: auth_run_def initial_auth_state_def owner_session_def session_user_def
      fetchProfile_start_def)

text \<open>
  C9, amended. In the auth provider's state machine the loading flag is true from
  initialization, and after a step it is false exactly when the step is one of: the
  initial session check resolving with no user, the initial session check being
  rejected, an auth state change with no user, or a profile fetch settling (with a
  profile, an error or an exception). While loading is true the index screen
  performs no redirect, hence no routing based on a role.
\<close>

theorem loading_cleared_by:
  "as_loading initial_auth_state
   \<and> (\<not> as_loading (auth_step st ev))
     = ((\<exists>sess err. ev = GetSessionResolved sess err \<and> session_user sess = None)
        \<or> ev = GetSessionRejected
        \<or> (\<exists>sess. ev = AuthStateChange sess \<and> session_user sess = None)
        \<or> (\<exists>reply. ev = FetchProfileSettled reply))
   \<and> (as_loading st \<longrightarrow> index_route st = None)"
  using loading_after_step [of st ev]
  by (simp add: initial_auth_state_def index_route_def routing_decision_def)

text \<open>
  While the owner's profile is being fetched the index screen does not route; once
  the fetch settles with the profile it routes to the landowner's screens.
\<close>

theorem loading_cleared_by_witness:
  "as_loading (auth_run [GetSessionResolved (Some owner_session) None])
   \<and> index_route (auth_run [GetSessionResolved (Some owner_session) None]) = None
   \<and> \<not> as_loading (auth_run [GetSessionResolved (Some owner_session) None,
                             FetchProfileSettled (ProfileData owner_profile)])
   \<and> index_route (auth_run [GetSessionResolved (Some owner_session) None,
                          FetchProfileSettled (ProfileData owner_profile)]) = Some Landowner"
  using loading_cleared_by [of "auth_run [GetSessionResolved (Some owner_session) None]"
      "FetchProfileSettled (ProfileData owner_profile)"]
  by (simp add: auth_run_def initial_auth_state_def owner_session_def session_user_def
      fetchProfile_start_def fetchProfile_settle_def index_route_def routing_decision_def
      owner_profile_def)

section \<open>Deleting a notification\<close>

lemma notifications_no_delete_policy:
  "filter (applies_to For_Delete) notifications_policies = []"
  by (simp add: notifications_policies_def applies_to_def)

lemma rls_delete_notifications:
  "rls_delete notifications_policies db uid wh rows = rows"
  by (simp add: rls_delete_def notifications_using)

text \<open>
  C10. The policies of the notifications table let a caller select and update exactly
  the rows whose \<^verbatim>\<open>user_id\<close> is the caller, let every authenticated caller insert,
  and none of them applies to DELETE; so a delete by any authenticated caller, with any
  filter, leaves the table as it was, and the client's \<^verbatim>\<open>deleteNotification\<close> leaves
  the database unchanged while, its request having raised no error, it removes the
  item from the screen's list.
\<close>

theorem notifications_delete_denied:
  "using_passes notifications_policies For_Select db uid r = (n_user_id r = Some uid)
   \<and> using_passes notifications_policies For_Update db uid r = (n_user_id r = Some uid)
   \<and> check_passes notifications_policies For_Update db uid r = (n_user_id r = Some uid)
   \<and> check_passes notifications_policies For_Insert db uid r
   \<and> filter (applies_to For_Delete) notifications_policies = []
   \<and> rls_delete notifications_policies db uid wh rows = rows
   \<and> fst (deleteNotification notifs db uid notificationId fault) = db
   \<and> deleteNotification notifs db uid notificationId None
       = (db, filter (\<lambda>notif. n_id notif \<noteq> notificationId) notifs, [])"
  by (simp add: notifications_using notifications_no_delete_policy rls_delete_notifications
      deleteNotification_def request_def split: option.splits)

text \<open>The owner deletes their notification: it leaves the screen and stays in the table.\<close>

lemma owner_deletes_notification:
  "deleteNotification [note_owner] registry ''u1'' ''n1'' None = (registry, [], [])"
  by (simp add: deleteNotification_def request_def rls_delete_notifications note_owner_def)

end
